theory Spec2Isabelle
  imports Complex_Main "HOL-Library.Char_ord" "HOL-Library.List_Lexorder" "HOL-Library.Multiset"
begin

section \<open>The udon order tracker: extraction, order building, store and aggregation\<close>

text \<open>
  The development follows \<^verbatim>\<open>src/services/geminiService.ts\<close>, which holds the
  extraction service (\<^verbatim>\<open>parseEmailContent\<close>), the type declarations
  (\<^verbatim>\<open>OrderItem\<close>, \<^verbatim>\<open>CafeteriaOrder\<close>, \<^verbatim>\<open>Statistics\<close>) and the
  \<^verbatim>\<open>App\<close> component with its state, effects and memoised aggregates.
  \<^verbatim>\<open>src/unnamed/part_000\<close> is a second copy of the \<^verbatim>\<open>App\<close> component; the
  places where it differs are modelled in a subsection of their own, with the suffix
  \<open>_part000\<close>.
\<close>

subsection \<open>JavaScript strings\<close>

text \<open>
  A JavaScript string is modelled as \<^typ>\<open>string\<close>, the list of the bytes of its UTF-8
  encoding. The program uses strings through equality, emptiness (truthiness),
  \<^verbatim>\<open>startsWith\<close>, \<^verbatim>\<open>slice(0, 7)\<close> on an ASCII time stamp and
  \<^verbatim>\<open>split\<close> at an ASCII character; on well-formed strings these give the same
  answers on UTF-8 bytes as on UTF-16 code units. The texts of the source that are
  not ASCII are written out byte by byte.
\<close>

text \<open>\<^verbatim>\<open>s.split(sep)\<close> for a separator of one character: never the empty array.\<close>

fun js_split :: "char \<Rightarrow> string \<Rightarrow> string list" where
  "js_split sep [] = [[]]"
| "js_split sep (c # cs) =
     (if c = sep then [] # js_split sep cs
      else (case js_split sep cs of
              [] \<Rightarrow> [[c]]
            | w # ws \<Rightarrow> (c # w) # ws))"

text \<open>\<^verbatim>\<open>s.startsWith(p)\<close>.\<close>

definition startsWith :: "string \<Rightarrow> string \<Rightarrow> bool" where
  "startsWith s p = (take (length p) s = p)"

text \<open>\<^verbatim>\<open>a || b\<close> on strings: the empty string is the only falsy string.\<close>

definition or_else :: "string \<Rightarrow> string \<Rightarrow> string" where
  "or_else a b = (if a \<noteq> [] then a else b)"

text \<open>
  The Japanese texts of the source, as UTF-8 bytes: \<open>SENDER\<close> is the sender that
  \<^verbatim>\<open>processEmail\<close> writes into every order; \<open>MAIL_SUBJECT\<close> is the subject of
  the mock e-mails and of the polled e-mail; \<open>MOCK_BODY_1\<close>, \<open>MOCK_BODY_2\<close> and
  \<open>MOCK_BODY_3\<close> are the bodies of the three mock e-mails (with their line
  feeds); \<open>ORDER_HEADING\<close>, \<open>TSUKIMI_UDON\<close>, \<open>MISO_RAMEN\<close> and
  \<open>KOROKKE_LINE\<close> are the pieces of the template literal for the body of the
  polled e-mail.
\<close>

definition SENDER :: string where
  "SENDER =
    [CHR 0xE5, CHR 0x89, CHR 0xB5, CHR 0xE4, CHR 0xBE, CHR 0xA1, CHR 0xE9, CHR 0xAB,
     CHR 0x98, CHR 0xE7, CHR 0xAD, CHR 0x89, CHR 0xE5, CHR 0xAD, CHR 0xA6, CHR 0xE6,
     CHR 0xA0, CHR 0xA1, CHR 0xE9, CHR 0xA3, CHR 0x9F, CHR 0xE5, CHR 0xA0, CHR 0x82]"

definition MAIL_SUBJECT :: string where
  "MAIL_SUBJECT =
    [CHR 0xE3, CHR 0x80, CHR 0x90, CHR 0xE5, CHR 0x89, CHR 0xB5, CHR 0xE4, CHR 0xBE,
     CHR 0xA1, CHR 0xE9, CHR 0xAB, CHR 0x98, CHR 0xE7, CHR 0xAD, CHR 0x89, CHR 0xE5,
     CHR 0xAD, CHR 0xA6, CHR 0xE6, CHR 0xA0, CHR 0xA1, CHR 0xE9, CHR 0xA3, CHR 0x9F,
     CHR 0xE5, CHR 0xA0, CHR 0x82, CHR 0xE3, CHR 0x80, CHR 0x91, CHR 0xE3, CHR 0x81,
     CHR 0x94, CHR 0xE6, CHR 0xB3, CHR 0xA8, CHR 0xE6, CHR 0x96, CHR 0x87, CHR 0xE5,
     CHR 0x86, CHR 0x85, CHR 0xE5, CHR 0xAE, CHR 0xB9, CHR 0xE3, CHR 0x81, CHR 0xAE,
     CHR 0xE7, CHR 0xA2, CHR 0xBA, CHR 0xE8, CHR 0xAA, CHR 0x8D]"

definition MOCK_BODY_1 :: string where
  "MOCK_BODY_1 =
    [CHR 0xE5, CHR 0x89, CHR 0xB5, CHR 0xE4, CHR 0xBE, CHR 0xA1, CHR 0xE9, CHR 0xAB,
     CHR 0x98, CHR 0xE7, CHR 0xAD, CHR 0x89, CHR 0xE5, CHR 0xAD, CHR 0xA6, CHR 0xE6,
     CHR 0xA0, CHR 0xA1, CHR 0xE9, CHR 0xA3, CHR 0x9F, CHR 0xE5, CHR 0xA0, CHR 0x82,
     CHR 0xE3, CHR 0x82, CHR 0x92, CHR 0xE3, CHR 0x81, CHR 0x94, CHR 0xE5, CHR 0x88,
     CHR 0xA9, CHR 0xE7, CHR 0x94, CHR 0xA8, CHR 0xE3, CHR 0x81, CHR 0x84, CHR 0xE3,
     CHR 0x81, CHR 0x9F, CHR 0xE3, CHR 0x81, CHR 0xA0, CHR 0xE3, CHR 0x81, CHR 0x8D,
     CHR 0xE3, CHR 0x81, CHR 0x82, CHR 0xE3, CHR 0x82, CHR 0x8A, CHR 0xE3, CHR 0x81,
     CHR 0x8C, CHR 0xE3, CHR 0x81, CHR 0xA8, CHR 0xE3, CHR 0x81, CHR 0x86, CHR 0xE3,
     CHR 0x81, CHR 0x94, CHR 0xE3, CHR 0x81, CHR 0x96, CHR 0xE3, CHR 0x81, CHR 0x84,
     CHR 0xE3, CHR 0x81, CHR 0xBE, CHR 0xE3, CHR 0x81, CHR 0x99, CHR 0xE3, CHR 0x80,
     CHR 0x82, CHR 0x0A, CHR 0xE3, CHR 0x80, CHR 0x90, CHR 0xE6, CHR 0xB3, CHR 0xA8,
     CHR 0xE6, CHR 0x96, CHR 0x87, CHR 0xE5, CHR 0x86, CHR 0x85, CHR 0xE5, CHR 0xAE,
     CHR 0xB9, CHR 0xE3, CHR 0x80, CHR 0x91, CHR 0x0A, CHR 0xE3, CHR 0x83, CHR 0xBB,
     CHR 0xE3, CHR 0x81, CHR 0x8D, CHR 0xE3, CHR 0x81, CHR 0xA4, CHR 0xE3, CHR 0x81,
     CHR 0xAD, CHR 0xE3, CHR 0x81, CHR 0x86, CHR 0xE3, CHR 0x81, CHR 0xA9, CHR 0xE3,
     CHR 0x82, CHR 0x93, CHR 0x0A, CHR 0xE3, CHR 0x83, CHR 0xBB, CHR 0xE3, CHR 0x81,
     CHR 0x8A, CHR 0xE3, CHR 0x81, CHR 0xAB, CHR 0xE3, CHR 0x81, CHR 0x8E, CHR 0xE3,
     CHR 0x82, CHR 0x8A]"

definition MOCK_BODY_2 :: string where
  "MOCK_BODY_2 =
    [CHR 0xE3, CHR 0x80, CHR 0x90, CHR 0xE6, CHR 0xB3, CHR 0xA8, CHR 0xE6, CHR 0x96,
     CHR 0x87, CHR 0xE5, CHR 0x86, CHR 0x85, CHR 0xE5, CHR 0xAE, CHR 0xB9, CHR 0xE3,
     CHR 0x80, CHR 0x91, CHR 0x0A, CHR 0xE3, CHR 0x83, CHR 0xBB, CHR 0xE3, CHR 0x82,
     CHR 0xAB, CHR 0xE3, CHR 0x83, CHR 0xAC, CHR 0xE3, CHR 0x83, CHR 0xBC, CHR 0xE3,
     CHR 0x83, CHR 0xA9, CHR 0xE3, CHR 0x82, CHR 0xA4, CHR 0xE3, CHR 0x82, CHR 0xB9,
     CHR 0x0A, CHR 0xE3, CHR 0x83, CHR 0xBB, CHR 0xE3, CHR 0x82, CHR 0xB5, CHR 0xE3,
     CHR 0x83, CHR 0xA9, CHR 0xE3, CHR 0x83, CHR 0x80]"

definition MOCK_BODY_3 :: string where
  "MOCK_BODY_3 =
    [CHR 0xE3, CHR 0x80, CHR 0x90, CHR 0xE6, CHR 0xB3, CHR 0xA8, CHR 0xE6, CHR 0x96,
     CHR 0x87, CHR 0xE5, CHR 0x86, CHR 0x85, CHR 0xE5, CHR 0xAE, CHR 0xB9, CHR 0xE3,
     CHR 0x80, CHR 0x91, CHR 0x0A, CHR 0xE3, CHR 0x83, CHR 0xBB, CHR 0xE3, CHR 0x81,
     CHR 0x9F, CHR 0xE3, CHR 0x81, CHR 0xAC, CHR 0xE3, CHR 0x81, CHR 0x8D, CHR 0xE3,
     CHR 0x81, CHR 0x86, CHR 0xE3, CHR 0x81, CHR 0xA9, CHR 0xE3, CHR 0x82, CHR 0x93,
     CHR 0x0A, CHR 0xE3, CHR 0x83, CHR 0xBB, CHR 0xE5, CHR 0x94, CHR 0x90, CHR 0xE6,
     CHR 0x8F, CHR 0x9A, CHR 0xE3, CHR 0x81, CHR 0x92]"

definition ORDER_HEADING :: string where
  "ORDER_HEADING =
    [CHR 0xE3, CHR 0x80, CHR 0x90, CHR 0xE6, CHR 0xB3, CHR 0xA8, CHR 0xE6, CHR 0x96,
     CHR 0x87, CHR 0xE5, CHR 0x86, CHR 0x85, CHR 0xE5, CHR 0xAE, CHR 0xB9, CHR 0xE3,
     CHR 0x80, CHR 0x91, CHR 0x0A, CHR 0xE3, CHR 0x83, CHR 0xBB]"

definition TSUKIMI_UDON :: string where
  "TSUKIMI_UDON =
    [CHR 0xE6, CHR 0x9C, CHR 0x88, CHR 0xE8, CHR 0xA6, CHR 0x8B, CHR 0xE3, CHR 0x81,
     CHR 0x86, CHR 0xE3, CHR 0x81, CHR 0xA9, CHR 0xE3, CHR 0x82, CHR 0x93]"

definition MISO_RAMEN :: string where
  "MISO_RAMEN =
    [CHR 0xE5, CHR 0x91, CHR 0xB3, CHR 0xE5, CHR 0x99, CHR 0x8C, CHR 0xE3, CHR 0x83,
     CHR 0xA9, CHR 0xE3, CHR 0x83, CHR 0xBC, CHR 0xE3, CHR 0x83, CHR 0xA1, CHR 0xE3,
     CHR 0x83, CHR 0xB3]"

definition KOROKKE_LINE :: string where
  "KOROKKE_LINE =
    [CHR 0x0A, CHR 0xE3, CHR 0x83, CHR 0xBB, CHR 0xE3, CHR 0x82, CHR 0xB3, CHR 0xE3,
     CHR 0x83, CHR 0xAD, CHR 0xE3, CHR 0x83, CHR 0x83, CHR 0xE3, CHR 0x82, CHR 0xB1]"

subsection \<open>Types (\<^verbatim>\<open>types.ts\<close>)\<close>

text \<open>
  Field names are those of the source. A record field name is global in a theory, so
  the fields that several interfaces share carry the record as a prefix:
  \<open>order_id\<close> (also because \<open>id\<close> is the identity function of HOL),
  \<open>email_id\<close>, \<open>email_subject\<close>, \<open>email_date\<close>, \<open>email_body\<close> for the
  e-mail objects, \<open>parsed_items\<close> and \<open>parsed_date\<close> for the value
  \<^verbatim>\<open>{ items: OrderItem[], date: string }\<close> that \<^verbatim>\<open>parseEmailContent\<close> is
  declared to return, and \<open>bucket_date\<close> for the chart groups.
\<close>

record OrderItem =
  name :: string
  isUdon :: bool

record CafeteriaOrder =
  order_id :: string
  date :: string
  sender :: string
  subject :: string
  items :: "OrderItem list"
  fullText :: string
  hasUdon :: bool

text \<open>
  \<^verbatim>\<open>udonPercentage\<close> is a JavaScript number; it is modelled as an exact rational
  (the source computes it in IEEE double precision).
\<close>

record Statistics =
  totalOrders :: nat
  udonCount :: nat
  udonPercentage :: rat
  thisMonthCount :: nat

record ExtractionResult =
  parsed_items :: "OrderItem list"
  parsed_date :: string

record email =
  email_id :: string
  email_subject :: string
  email_date :: string
  email_body :: string

subsection \<open>The extraction service (\<^verbatim>\<open>parseEmailContent\<close>)\<close>

text \<open>
  The values \<^verbatim>\<open>JSON.parse\<close> can return; an object is the list of its own
  properties, each name once.
\<close>

datatype json =
    JNull
  | JBool bool
  | JNum rat
  | JStr string
  | JArr "json list"
  | JObj "(string \<times> json) list"

text \<open>
  What a caller of an \<^verbatim>\<open>async\<close> function can see go wrong: the promise of
  \<^verbatim>\<open>ai.models.generateContent\<close> rejects (transport failure, timeout, throttling),
  or a \<^verbatim>\<open>TypeError\<close> is thrown because a property of \<^verbatim>\<open>null\<close> or
  \<^verbatim>\<open>undefined\<close> is read or a value that is not a function is called.
\<close>

datatype js_error = ServiceRejected | TypeError

text \<open>\<^verbatim>\<open>response.text || "{}"\<close>, where \<^verbatim>\<open>response.text\<close> may be undefined.\<close>

definition text_or_braces :: "string option \<Rightarrow> string" where
  "text_or_braces t = (case t of None \<Rightarrow> ''{}'' | Some s \<Rightarrow> or_else s ''{}'')"

text \<open>\<^verbatim>\<open>new Date().toISOString().split('T')[0]\<close>, from the ISO time stamp of the clock.\<close>

definition iso_date_part :: "string \<Rightarrow> string" where
  "iso_date_part now_iso = hd (js_split (CHR ''T'') now_iso)"

text \<open>The object literal returned by the \<^verbatim>\<open>catch\<close> branch.\<close>

definition parse_failure_result :: "string \<Rightarrow> json" where
  "parse_failure_result now_iso =
     JObj [(''items'', JArr []), (''date'', JStr (iso_date_part now_iso))]"

text \<open>
  \<^verbatim>\<open>parseEmailContent(emailBody)\<close>. The surroundings are parameters:
  \<open>generateContent\<close> is the outcome of the awaited service call for the prompt built
  around the body (\<open>Inl\<close> when its promise rejects, otherwise the \<^verbatim>\<open>text\<close> of
  the response); \<open>JSON_parse\<close> is \<^verbatim>\<open>JSON.parse\<close>, \<open>None\<close> where it throws;
  \<open>now_iso\<close> is the clock. The \<^verbatim>\<open>await\<close> stands before the \<^verbatim>\<open>try\<close>, so a
  rejection leaves the function; only \<^verbatim>\<open>JSON.parse\<close> is inside the
  \<^verbatim>\<open>try\<close>. The parsed value is returned as it is.
\<close>

definition parseEmailContent ::
  "(string \<Rightarrow> js_error + string option) \<Rightarrow> (string \<Rightarrow> json option) \<Rightarrow> string
     \<Rightarrow> string \<Rightarrow> js_error + json" where
  "parseEmailContent generateContent JSON_parse now_iso emailBody =
     (case generateContent emailBody of
        Inl err \<Rightarrow> Inl err
      | Inr text \<Rightarrow>
          (case JSON_parse (text_or_braces text) of
             Some data \<Rightarrow> Inr data
           | None \<Rightarrow> Inr (parse_failure_result now_iso)))"

text \<open>
  The declared result type \<^verbatim>\<open>{ items: OrderItem[], date: string }\<close> is not checked
  at run time. \<open>as_ExtractionResult\<close> reads a value that has this shape, and is
  \<open>None\<close> on every other value; the empty result of the specification is
  \<open>empty_result\<close>.
\<close>

definition as_OrderItem :: "json \<Rightarrow> OrderItem option" where
  "as_OrderItem j =
     (case j of
        JObj props \<Rightarrow>
          (case (map_of props ''name'', map_of props ''isUdon'') of
             (Some (JStr n), Some (JBool b)) \<Rightarrow> Some \<lparr>name = n, isUdon = b\<rparr>
           | _ \<Rightarrow> None)
      | _ \<Rightarrow> None)"

definition as_ExtractionResult :: "json \<Rightarrow> ExtractionResult option" where
  "as_ExtractionResult j =
     (case j of
        JObj props \<Rightarrow>
          (case (map_of props ''items'', map_of props ''date'') of
             (Some (JArr js), Some (JStr d)) \<Rightarrow>
               (case those (map as_OrderItem js) of
                  Some its \<Rightarrow> Some \<lparr>parsed_items = its, parsed_date = d\<rparr>
                | None \<Rightarrow> None)
           | _ \<Rightarrow> None)
      | _ \<Rightarrow> None)"

definition empty_result :: ExtractionResult where
  "empty_result = \<lparr>parsed_items = [], parsed_date = ''''\<rparr>"

subsection \<open>The order builder (\<^verbatim>\<open>processEmail\<close>)\<close>

text \<open>
  The first statement of \<^verbatim>\<open>processEmail\<close> after the \<^verbatim>\<open>await\<close> is
  \<^verbatim>\<open>parsed.items.some(item => item.isUdon)\<close>, on the unchecked value that
  \<^verbatim>\<open>parseEmailContent\<close> returned. \<open>truthy\<close> is the truth value of a property
  read (\<open>None\<close> for \<^verbatim>\<open>undefined\<close>). \<open>callback_throws\<close> says whether the
  callback throws on the elements of an array before it finds a truthy
  \<^verbatim>\<open>isUdon\<close>: it throws on \<^verbatim>\<open>null\<close>, reads the own property of an object,
  and reads \<^verbatim>\<open>undefined\<close> on every other value. \<open>some_throws\<close> says whether the
  whole expression throws a \<^verbatim>\<open>TypeError\<close>: it does unless the value is an object
  whose \<^verbatim>\<open>items\<close> is an array on which the callback does not throw.
\<close>

definition truthy :: "json option \<Rightarrow> bool" where
  "truthy v =
     (case v of
        None \<Rightarrow> False
      | Some JNull \<Rightarrow> False
      | Some (JBool b) \<Rightarrow> b
      | Some (JNum n) \<Rightarrow> n \<noteq> 0
      | Some (JStr s) \<Rightarrow> s \<noteq> []
      | Some (JArr xs) \<Rightarrow> True
      | Some (JObj props) \<Rightarrow> True)"

fun callback_throws :: "json list \<Rightarrow> bool" where
  "callback_throws [] = False"
| "callback_throws (JNull # xs) = True"
| "callback_throws (JObj props # xs) =
     (if truthy (map_of props ''isUdon'') then False else callback_throws xs)"
| "callback_throws (x # xs) = callback_throws xs"

definition some_throws :: "json \<Rightarrow> bool" where
  "some_throws data =
     (case data of
        JObj props \<Rightarrow>
          (case map_of props ''items'' of
             Some (JArr xs) \<Rightarrow> callback_throws xs
           | _ \<Rightarrow> True)
      | _ \<Rightarrow> True)"

text \<open>
  The awaited value as \<^verbatim>\<open>processEmail\<close> meets it: a value of the declared type
  \<^verbatim>\<open>{ items: OrderItem[], date: string }\<close>, or a value on which
  \<^verbatim>\<open>parsed.items.some(...)\<close> throws, such as the object \<^verbatim>\<open>{}\<close> that
  \<^verbatim>\<open>parseEmailContent\<close> returns for an empty reply text. \<open>awaited_of\<close> sorts the
  values of \<^verbatim>\<open>JSON.parse\<close> into the two. It is \<open>None\<close> on the values that are
  left: those that pass \<^verbatim>\<open>some\<close> but have a date that is not a string or an
  item that is not an \<^verbatim>\<open>OrderItem\<close>. From these the source builds an object that is
  not a \<^verbatim>\<open>CafeteriaOrder\<close>; they are not values of \<open>awaited\<close>.
\<close>

datatype awaited = Declared ExtractionResult | Throwing

definition awaited_of :: "json \<Rightarrow> awaited option" where
  "awaited_of data =
     (if some_throws data then Some Throwing
      else map_option Declared (as_ExtractionResult data))"

text \<open>
  \<^verbatim>\<open>processEmail(email)\<close> awaits \<^verbatim>\<open>parseEmailContent(email.body)\<close> and builds
  the order. \<open>parse\<close> gives, for a body, either the error the call raised or the
  value it returned. There is no \<^verbatim>\<open>try\<close> in \<^verbatim>\<open>processEmail\<close>: an error of
  the call is the error of \<^verbatim>\<open>processEmail\<close>, and so is the
  \<^verbatim>\<open>TypeError\<close> of \<^verbatim>\<open>parsed.items.some(...)\<close>.
\<close>

definition processEmail ::
  "(string \<Rightarrow> js_error + awaited) \<Rightarrow> email \<Rightarrow> js_error + CafeteriaOrder" where
  "processEmail parse email =
     (case parse (email_body email) of
        Inl err \<Rightarrow> Inl err
      | Inr Throwing \<Rightarrow> Inl TypeError
      | Inr (Declared parsed) \<Rightarrow>
          (let hasUdon = list_ex isUdon (parsed_items parsed) in
           Inr \<lparr>order_id = email_id email,
                date = or_else (parsed_date parsed) (hd (js_split (CHR '' '') (email_date email))),
                sender = SENDER,
                subject = email_subject email,
                items = parsed_items parsed,
                fullText = email_body email,
                hasUdon = hasUdon\<rparr>))"

subsection \<open>The component state and the order store\<close>

type_synonym Date = int

record app =
  orders :: "CafeteriaOrder list"
  isSyncing :: bool
  autoSync :: bool
  lastSyncTime :: Date

text \<open>The four \<^verbatim>\<open>useState\<close> initial values; \<open>t0\<close> is the clock at the first render.\<close>

definition initial_app :: "Date \<Rightarrow> app" where
  "initial_app t0 = \<lparr>orders = [], isSyncing = False, autoSync = True, lastSyncTime = t0\<rparr>"

text \<open>
  The only update of the store besides the initial load:
  \<^verbatim>\<open>setOrders(prev => [processed, ...prev])\<close>.
\<close>

definition append_order :: "CafeteriaOrder \<Rightarrow> CafeteriaOrder list \<Rightarrow> CafeteriaOrder list" where
  "append_order processed prev = processed # prev"

subsection \<open>Initial load\<close>

text \<open>\<^verbatim>\<open>CURRENT_MONTH = new Date().toISOString().slice(0, 7)\<close>, evaluated once when the module loads.\<close>

definition CURRENT_MONTH_of :: "string \<Rightarrow> string" where
  "CURRENT_MONTH_of now_iso = take 7 now_iso"

definition MOCK_EMAILS :: "string \<Rightarrow> email list" where
  "MOCK_EMAILS CURRENT_MONTH =
     [\<lparr>email_id = ''1'', email_subject = MAIL_SUBJECT,
       email_date = CURRENT_MONTH @ ''-20 12:00'', email_body = MOCK_BODY_1\<rparr>,
      \<lparr>email_id = ''2'', email_subject = MAIL_SUBJECT,
       email_date = CURRENT_MONTH @ ''-18 11:30'', email_body = MOCK_BODY_2\<rparr>,
      \<lparr>email_id = ''3'', email_subject = MAIL_SUBJECT,
       email_date = CURRENT_MONTH @ ''-15 12:15'', email_body = MOCK_BODY_3\<rparr>]"

text \<open>
  \<^verbatim>\<open>Promise.all\<close>: the list of the results in the order of the inputs, or a
  rejection as soon as one input rejects (the error is only logged by the caller; the
  model returns the first one in list order).
\<close>

fun Promise_all :: "(js_error + 'a) list \<Rightarrow> js_error + 'a list" where
  "Promise_all [] = Inr []"
| "Promise_all (Inl err # ps) = Inl err"
| "Promise_all (Inr x # ps) =
     (case Promise_all ps of Inl err \<Rightarrow> Inl err | Inr xs \<Rightarrow> Inr (x # xs))"

text \<open>
  \<^verbatim>\<open>init\<close> in two steps, before and after its \<^verbatim>\<open>await\<close>: \<open>init_start\<close> is
  \<^verbatim>\<open>setIsSyncing(true)\<close>; \<open>init_settle\<close> is the rest: \<^verbatim>\<open>setOrders(results)\<close>
  when \<^verbatim>\<open>Promise.all\<close> fulfils, the \<^verbatim>\<open>catch\<close> branch (a log line) when it
  rejects, and \<^verbatim>\<open>setIsSyncing(false)\<close> in the \<^verbatim>\<open>finally\<close> block.
\<close>

definition init_start :: "app \<Rightarrow> app" where
  "init_start s = s\<lparr>isSyncing := True\<rparr>"

definition init_settle ::
  "(string \<Rightarrow> js_error + awaited) \<Rightarrow> string \<Rightarrow> app \<Rightarrow> app" where
  "init_settle parse CURRENT_MONTH s =
     (let s' = (case Promise_all (map (processEmail parse) (MOCK_EMAILS CURRENT_MONTH)) of
                  Inr results \<Rightarrow> s\<lparr>orders := results\<rparr>
                | Inl err \<Rightarrow> s)
      in s'\<lparr>isSyncing := False\<rparr>)"

definition init :: "(string \<Rightarrow> js_error + awaited) \<Rightarrow> string \<Rightarrow> app \<Rightarrow> app" where
  "init parse CURRENT_MONTH s = init_settle parse CURRENT_MONTH (init_start s)"

subsection \<open>Polling\<close>

text \<open>
  The callback of \<^verbatim>\<open>setInterval\<close>. Its inputs from outside are the clock
  (\<open>now\<close>, and \<open>now_locale\<close> for \<^verbatim>\<open>now.toLocaleString()\<close>), the two draws of
  \<^verbatim>\<open>Math.random()\<close> that are compared, and the string \<open>new_id\<close> made from the
  third draw. An error of \<^verbatim>\<open>processEmail\<close> is not caught: the callback ends
  there and the store keeps its value.
\<close>

definition newEmail :: "rat \<Rightarrow> string \<Rightarrow> string \<Rightarrow> email" where
  "newEmail r_udon new_id now_locale =
     (let isUdon = (r_udon > 5 / 10) in
      \<lparr>email_id = new_id,
       email_subject = MAIL_SUBJECT,
       email_date = now_locale,
       email_body = ORDER_HEADING @ (if isUdon then TSUKIMI_UDON else MISO_RAMEN) @ KOROKKE_LINE\<rparr>)"

definition poll_tick :: "Date \<Rightarrow> app \<Rightarrow> app" where
  "poll_tick now s = s\<lparr>lastSyncTime := now\<rparr>"

definition poll_arrived ::
  "(string \<Rightarrow> js_error + awaited) \<Rightarrow> email \<Rightarrow> app \<Rightarrow> app" where
  "poll_arrived parse e s =
     (case processEmail parse e of
        Inr processed \<Rightarrow> s\<lparr>orders := append_order processed (orders s)\<rparr>
      | Inl err \<Rightarrow> s)"

definition poll ::
  "(string \<Rightarrow> js_error + awaited) \<Rightarrow> Date \<Rightarrow> rat \<Rightarrow> rat \<Rightarrow> string \<Rightarrow> string
     \<Rightarrow> app \<Rightarrow> app" where
  "poll parse now r_found r_udon new_id now_locale s =
     (let s1 = poll_tick now s in
      if r_found > 7 / 10 then poll_arrived parse (newEmail r_udon new_id now_locale) s1
      else s1)"

subsection \<open>Manual sync\<close>

text \<open>
  \<^verbatim>\<open>handleManualSync\<close>, before and after its \<^verbatim>\<open>await\<close> of the timer.
\<close>

definition handleManualSync_start :: "app \<Rightarrow> app" where
  "handleManualSync_start s = s\<lparr>isSyncing := True\<rparr>"

definition handleManualSync_finish :: "Date \<Rightarrow> app \<Rightarrow> app" where
  "handleManualSync_finish now s = (s\<lparr>lastSyncTime := now\<rparr>)\<lparr>isSyncing := False\<rparr>"

definition handleManualSync :: "Date \<Rightarrow> app \<Rightarrow> app" where
  "handleManualSync now s = handleManualSync_finish now (handleManualSync_start s)"

subsection \<open>The component as a transition system\<close>

text \<open>
  Every state update of the component is one of these events; the pieces of the three
  asynchronous functions may interleave. The interval exists only while
  \<^verbatim>\<open>autoSync\<close> is on; a callback that already awaits still completes.
\<close>

datatype event =
    InitStart
  | InitSettle "string \<Rightarrow> js_error + awaited"
  | PollTick Date
  | PollArrived "string \<Rightarrow> js_error + awaited" email
  | ManualStart
  | ManualFinish Date
  | SetAutoSync bool

definition step :: "string \<Rightarrow> app \<Rightarrow> event \<Rightarrow> app" where
  "step CURRENT_MONTH s ev =
     (case ev of
        InitStart \<Rightarrow> init_start s
      | InitSettle parse \<Rightarrow> init_settle parse CURRENT_MONTH s
      | PollTick now \<Rightarrow> (if autoSync s then poll_tick now s else s)
      | PollArrived parse e \<Rightarrow> poll_arrived parse e s
      | ManualStart \<Rightarrow> handleManualSync_start s
      | ManualFinish now \<Rightarrow> handleManualSync_finish now s
      | SetAutoSync b \<Rightarrow> s\<lparr>autoSync := b\<rparr>)"

definition run :: "string \<Rightarrow> app \<Rightarrow> event list \<Rightarrow> app" where
  "run CURRENT_MONTH s evs = foldl (step CURRENT_MONTH) s evs"

subsection \<open>Aggregation: \<^verbatim>\<open>stats\<close>\<close>

text \<open>
  The memoised \<^verbatim>\<open>stats\<close>, a function of \<^verbatim>\<open>orders\<close> alone in the source.
  \<open>CURRENT_MONTH\<close> is the constant of the module, \<open>CURRENT_MONTH_of\<close> of the clock
  at the time the module was loaded; no caller of \<^verbatim>\<open>stats\<close> chooses it.
\<close>

definition stats :: "string \<Rightarrow> CafeteriaOrder list \<Rightarrow> Statistics" where
  "stats CURRENT_MONTH orders' =
     (let udonOrders = filter hasUdon orders' in
      \<lparr>totalOrders = length orders',
       udonCount = length udonOrders,
       udonPercentage =
         (if length orders' > 0
          then (of_nat (length udonOrders) / of_nat (length orders')) * 100
          else 0),
       thisMonthCount =
         length (filter (\<lambda>x. startsWith (date x) CURRENT_MONTH) udonOrders)\<rparr>)"

text \<open>
  The count of the current period as the specification words it for
  \<^verbatim>\<open>computeStatistics(orders, currentPeriod)\<close>, with the period supplied by the
  caller; it is compared with \<open>thisMonthCount\<close> below.
\<close>

definition currentPeriodTargetCount_spec :: "CafeteriaOrder list \<Rightarrow> string \<Rightarrow> nat" where
  "currentPeriodTargetCount_spec orders' currentPeriod =
     length (filter (\<lambda>x. hasUdon x \<and> startsWith (date x) currentPeriod) orders')"

subsection \<open>Aggregation: \<^verbatim>\<open>chartData\<close>\<close>

record bucket =
  bucket_date :: string
  others :: nat
  udon :: nat

text \<open>
  \<^verbatim>\<open>groups\<close> is an object literal used as a dictionary. Its own properties are kept
  as a list in the order of their creation. A read \<^verbatim>\<open>groups[d]\<close> also sees the
  properties that every object literal inherits from \<^verbatim>\<open>Object.prototype\<close>; these
  are functions, and \<^verbatim>\<open>__proto__\<close> is the prototype object itself, so all of them
  are truthy.
\<close>

definition Object_prototype_names :: "string list" where
  "Object_prototype_names =
     [''constructor'', ''__defineGetter__'', ''__defineSetter__'', ''hasOwnProperty'',
      ''__lookupGetter__'', ''__lookupSetter__'', ''isPrototypeOf'',
      ''propertyIsEnumerable'', ''toString'', ''valueOf'', ''__proto__'',
      ''toLocaleString'']"

text \<open>The test \<^verbatim>\<open>groups[d]\<close> of \<^verbatim>\<open>if (!groups[d])\<close>.\<close>

definition has_truthy :: "(string \<times> bucket) list \<Rightarrow> string \<Rightarrow> bool" where
  "has_truthy groups d = (map_of groups d \<noteq> None \<or> d \<in> set Object_prototype_names)"

text \<open>\<^verbatim>\<open>udon += 1\<close> or \<^verbatim>\<open>others += 1\<close> on a bucket.\<close>

definition add_one :: "bool \<Rightarrow> bucket \<Rightarrow> bucket" where
  "add_one is_udon b = (if is_udon then b\<lparr>udon := udon b + 1\<rparr> else b\<lparr>others := others b + 1\<rparr>)"

text \<open>
  The body of \<^verbatim>\<open>orders.forEach\<close>. When \<^verbatim>\<open>groups[d]\<close> is an inherited
  property, no own property is created and the increment is written to the inherited
  object: the own properties of \<^verbatim>\<open>groups\<close> stay as they are.
\<close>

definition count_order :: "(string \<times> bucket) list \<Rightarrow> CafeteriaOrder \<Rightarrow> (string \<times> bucket) list" where
  "count_order groups x =
     (let d = date x;
          groups' = (if \<not> has_truthy groups d
                     then groups @ [(d, \<lparr>bucket_date = d, others = 0, udon = 0\<rparr>)]
                     else groups)
      in map (\<lambda>(k, b). if k = d then (k, add_one (hasUdon x) b) else (k, b)) groups')"

text \<open>
  \<^verbatim>\<open>Object.values\<close> lists the own properties whose names are array indices
  (canonical decimal numerals below \<open>2\<^sup>3\<^sup>2 - 1\<close>) first, in ascending numeric order,
  and then the other properties in the order of their creation.
\<close>

definition is_digit :: "char \<Rightarrow> bool" where
  "is_digit c = (48 \<le> (of_char c :: nat) \<and> (of_char c :: nat) \<le> 57)"

definition decimal_value :: "string \<Rightarrow> nat" where
  "decimal_value s = foldl (\<lambda>n c. 10 * n + ((of_char c :: nat) - 48)) 0 s"

definition array_index :: "string \<Rightarrow> nat option" where
  "array_index s =
     (if s \<noteq> [] \<and> list_all is_digit s \<and> (hd s \<noteq> CHR ''0'' \<or> s = ''0'')
         \<and> decimal_value s < 2 ^ 32 - 1
      then Some (decimal_value s) else None)"

definition Object_values :: "(string \<times> 'a) list \<Rightarrow> 'a list" where
  "Object_values props =
     map snd
       (sort_key (\<lambda>p. case array_index (fst p) of Some n \<Rightarrow> n | None \<Rightarrow> 0)
          (filter (\<lambda>p. array_index (fst p) \<noteq> None) props)
        @ filter (\<lambda>p. array_index (fst p) = None) props)"

text \<open>
  \<^verbatim>\<open>Array.prototype.sort\<close> with a comparison function is a stable sort: \<open>x\<close> goes
  before the first \<open>y\<close> with \<open>cmp x y \<le> 0\<close>.
\<close>

fun insert_by :: "('a \<Rightarrow> 'a \<Rightarrow> int) \<Rightarrow> 'a \<Rightarrow> 'a list \<Rightarrow> 'a list" where
  "insert_by cmp x [] = [x]"
| "insert_by cmp x (y # ys) = (if cmp x y \<le> 0 then x # y # ys else y # insert_by cmp x ys)"

definition sort_by :: "('a \<Rightarrow> 'a \<Rightarrow> int) \<Rightarrow> 'a list \<Rightarrow> 'a list" where
  "sort_by cmp xs = foldr (insert_by cmp) xs []"

text \<open>\<^verbatim>\<open>xs.slice(-n)\<close>: the last \<open>n\<close> elements, or all of them.\<close>

definition slice_last :: "nat \<Rightarrow> 'a list \<Rightarrow> 'a list" where
  "slice_last n xs = drop (length xs - n) xs"

text \<open>
  The memoised \<^verbatim>\<open>chartData\<close>. \<open>localeCompare\<close> is
  \<^verbatim>\<open>String.prototype.localeCompare\<close>, the collation of the host's locale.
\<close>

definition chartData :: "(string \<Rightarrow> string \<Rightarrow> int) \<Rightarrow> CafeteriaOrder list \<Rightarrow> bucket list" where
  "chartData localeCompare orders' =
     (let groups = foldl count_order [] orders' in
      slice_last 14
        (sort_by (\<lambda>a b. localeCompare (bucket_date a) (bucket_date b)) (Object_values groups)))"

text \<open>
  A comparison by code units, for evaluating \<open>chartData\<close> on examples: on dates of the
  form \<^verbatim>\<open>YYYY-MM-DD\<close> every collation orders as it does.
\<close>

definition code_unit_compare :: "string \<Rightarrow> string \<Rightarrow> int" where
  "code_unit_compare a b = (if a < b then - 1 else if a = b then 0 else 1)"

text \<open>
  What the specification says a bucket holds: the number of orders of a date with, or
  without, udon; and the number of orders a bucket stands for.
\<close>

definition count_on :: "string \<Rightarrow> bool \<Rightarrow> CafeteriaOrder list \<Rightarrow> nat" where
  "count_on d u os = length (filter (\<lambda>x. date x = d \<and> hasUdon x = u) os)"

definition bucket_total :: "bucket \<Rightarrow> nat" where
  "bucket_total b = udon b + others b"

subsection \<open>The second copy of the component (\<^verbatim>\<open>src/unnamed/part_000\<close>)\<close>

text \<open>
  The second copy has the same state, the same polling update of the store and the
  same \<^verbatim>\<open>handleManualSync\<close> (with a longer timer). It differs in these places: the
  mock e-mails are dated in the literal month \<^verbatim>\<open>2024-03\<close>; \<^verbatim>\<open>processEmail\<close>
  takes \<^verbatim>\<open>parsed.date\<close> with no fallback; \<^verbatim>\<open>init\<close> has no
  \<^verbatim>\<open>try\<close>, so after a rejection of \<^verbatim>\<open>Promise.all\<close> none of its later
  statements runs; the polled e-mail is dated with \<^verbatim>\<open>new Date().toISOString()\<close>;
  \<^verbatim>\<open>stats\<close> compares with the literal \<^verbatim>\<open>'2024-03'\<close>; and
  \<^verbatim>\<open>chartData\<close> counts all orders and the udon orders of a date, and returns every
  group.
\<close>

definition MOCK_EMAILS_part000 :: "email list" where
  "MOCK_EMAILS_part000 =
     [\<lparr>email_id = ''1'', email_subject = MAIL_SUBJECT,
       email_date = ''2024-03-20 12:00'', email_body = MOCK_BODY_1\<rparr>,
      \<lparr>email_id = ''2'', email_subject = MAIL_SUBJECT,
       email_date = ''2024-03-18 11:30'', email_body = MOCK_BODY_2\<rparr>,
      \<lparr>email_id = ''3'', email_subject = MAIL_SUBJECT,
       email_date = ''2024-03-15 12:15'', email_body = MOCK_BODY_3\<rparr>]"

definition processEmail_part000 ::
  "(string \<Rightarrow> js_error + awaited) \<Rightarrow> email \<Rightarrow> js_error + CafeteriaOrder" where
  "processEmail_part000 parse email =
     (case parse (email_body email) of
        Inl err \<Rightarrow> Inl err
      | Inr Throwing \<Rightarrow> Inl TypeError
      | Inr (Declared parsed) \<Rightarrow>
          (let hasUdon = list_ex isUdon (parsed_items parsed) in
           Inr \<lparr>order_id = email_id email,
                date = parsed_date parsed,
                sender = SENDER,
                subject = email_subject email,
                items = parsed_items parsed,
                fullText = email_body email,
                hasUdon = hasUdon\<rparr>))"

definition init_settle_part000 ::
  "(string \<Rightarrow> js_error + awaited) \<Rightarrow> app \<Rightarrow> app" where
  "init_settle_part000 parse s =
     (case Promise_all (map (processEmail_part000 parse) MOCK_EMAILS_part000) of
        Inr results \<Rightarrow> (s\<lparr>orders := results\<rparr>)\<lparr>isSyncing := False\<rparr>
      | Inl err \<Rightarrow> s)"

definition init_part000 :: "(string \<Rightarrow> js_error + awaited) \<Rightarrow> app \<Rightarrow> app" where
  "init_part000 parse s = init_settle_part000 parse (init_start s)"

definition newEmail_part000 :: "rat \<Rightarrow> string \<Rightarrow> string \<Rightarrow> email" where
  "newEmail_part000 r_udon new_id now_iso =
     (let isUdon = (r_udon > 5 / 10) in
      \<lparr>email_id = new_id,
       email_subject = MAIL_SUBJECT,
       email_date = now_iso,
       email_body = ORDER_HEADING @ (if isUdon then TSUKIMI_UDON else MISO_RAMEN) @ KOROKKE_LINE\<rparr>)"

definition stats_part000 :: "CafeteriaOrder list \<Rightarrow> Statistics" where
  "stats_part000 orders' =
     (let udonOrders = filter hasUdon orders' in
      \<lparr>totalOrders = length orders',
       udonCount = length udonOrders,
       udonPercentage =
         (if length orders' > 0
          then (of_nat (length udonOrders) / of_nat (length orders')) * 100
          else 0),
       thisMonthCount =
         length (filter (\<lambda>x. startsWith (date x) ''2024-03'') udonOrders)\<rparr>)"

record bucket_part000 =
  date_part000 :: string
  count_part000 :: nat
  udon_part000 :: nat

definition count_order_part000 ::
  "(string \<times> bucket_part000) list \<Rightarrow> CafeteriaOrder \<Rightarrow> (string \<times> bucket_part000) list" where
  "count_order_part000 groups x =
     (let d = date x;
          groups' = (if \<not> (map_of groups d \<noteq> None \<or> d \<in> set Object_prototype_names)
                     then groups @ [(d, \<lparr>date_part000 = d, count_part000 = 0, udon_part000 = 0\<rparr>)]
                     else groups);
          groups'' = map (\<lambda>(k, b). if k = d then (k, b\<lparr>count_part000 := count_part000 b + 1\<rparr>)
                                     else (k, b)) groups'
      in if hasUdon x
         then map (\<lambda>(k, b). if k = d then (k, b\<lparr>udon_part000 := udon_part000 b + 1\<rparr>)
                             else (k, b)) groups''
         else groups'')"

definition chartData_part000 ::
  "(string \<Rightarrow> string \<Rightarrow> int) \<Rightarrow> CafeteriaOrder list \<Rightarrow> bucket_part000 list" where
  "chartData_part000 localeCompare orders' =
     (let groups = foldl count_order_part000 [] orders' in
      sort_by (\<lambda>a b. localeCompare (date_part000 a) (date_part000 b)) (Object_values groups))"

subsection \<open>Sample data\<close>

text \<open>Scenario A and Scenario B of the specification, and a reply that fails.\<close>

definition kitsune_reply :: ExtractionResult where
  "kitsune_reply =
     \<lparr>parsed_items = [\<lparr>name = ''kitsune udon'', isUdon = True\<rparr>, \<lparr>name = ''onigiri'', isUdon = False\<rparr>],
      parsed_date = ''2024-03-20''\<rparr>"

definition sample_email :: email where
  "sample_email =
     \<lparr>email_id = ''2'', email_subject = MAIL_SUBJECT,
      email_date = ''2024-03-18 11:30'', email_body = MOCK_BODY_2\<rparr>"

definition sample_order :: "string \<Rightarrow> string \<Rightarrow> bool \<Rightarrow> CafeteriaOrder" where
  "sample_order i d u =
     \<lparr>order_id = i, date = d, sender = SENDER, subject = MAIL_SUBJECT,
      items = [\<lparr>name = ''menu'', isUdon = u\<rparr>], fullText = MOCK_BODY_2, hasUdon = u\<rparr>"

text \<open>
  A service that answers the first and the third mock e-mail and fails on the second;
  and one whose reply text for the second is empty, so that the value returned for it
  is the object \<^verbatim>\<open>{}\<close>.
\<close>

definition second_fails :: "string \<Rightarrow> js_error + awaited" where
  "second_fails b = (if b = MOCK_BODY_2 then Inl ServiceRejected else Inr (Declared kitsune_reply))"

definition second_is_empty_object :: "string \<Rightarrow> js_error + awaited" where
  "second_is_empty_object b = (if b = MOCK_BODY_2 then Inr Throwing else Inr (Declared kitsune_reply))"

text \<open>\<^verbatim>\<open>JSON.parse\<close> on the two texts the examples use: \<^verbatim>\<open>{}\<close>, and a text that is not JSON.\<close>

definition sample_JSON_parse :: "string \<Rightarrow> json option" where
  "sample_JSON_parse t = (if t = ''{}'' then Some (JObj []) else None)"

text \<open>What the specification asks of a failed extraction: the caller gets the empty result.\<close>

definition returns_empty_result :: "js_error + json \<Rightarrow> bool" where
  "returns_empty_result r =
     (case r of Inl err \<Rightarrow> False | Inr data \<Rightarrow> as_ExtractionResult data = Some empty_result)"

text \<open>Services for the examples: one that always rejects, one that always replies with a given text.\<close>

definition service_rejects :: "string \<Rightarrow> js_error + string option" where
  "service_rejects b = Inl ServiceRejected"

definition service_says :: "string option \<Rightarrow> string \<Rightarrow> js_error + string option" where
  "service_says t b = Inr t"

text \<open>Extraction outcomes for the examples, at the declared type.\<close>

definition replies_empty :: "string \<Rightarrow> js_error + awaited" where
  "replies_empty b = Inr (Declared empty_result)"

definition replies_kitsune :: "string \<Rightarrow> js_error + awaited" where
  "replies_kitsune b = Inr (Declared kitsune_reply)"

definition undated_email :: email where
  "undated_email =
     \<lparr>email_id = ''4'', email_subject = MAIL_SUBJECT, email_date = '''', email_body = MOCK_BODY_2\<rparr>"

definition sample_events :: "event list" where
  "sample_events =
     [InitStart, InitSettle replies_kitsune, PollTick 5, PollArrived replies_empty sample_email,
      ManualStart, SetAutoSync False, ManualFinish 9]"

text \<open>Fifteen orders on fifteen days, for the examples.\<close>

definition fifteen_days :: "CafeteriaOrder list" where
  "fifteen_days =
     map (\<lambda>d. sample_order d d False)
       [''2024-03-01'', ''2024-03-02'', ''2024-03-03'', ''2024-03-04'', ''2024-03-05'',
        ''2024-03-06'', ''2024-03-07'', ''2024-03-08'', ''2024-03-09'', ''2024-03-10'',
        ''2024-03-11'', ''2024-03-12'', ''2024-03-13'', ''2024-03-14'', ''2024-03-15'']"

section \<open>Properties\<close>

subsection \<open>Strings and promises\<close>

lemma js_split_not_Nil: "js_split sep s \<noteq> []"
  by (induction s) (auto split: list.splits)

lemma hd_js_split: "hd (js_split sep s) = takeWhile (\<lambda>c. c \<noteq> sep) s"
  by (induction s) (auto split: list.splits simp: js_split_not_Nil)

lemma Promise_all_map_Inr: "Promise_all (map Inr xs) = Inr xs"
  by (induction xs) auto

lemma Promise_all_Inr_D: "Promise_all ps = Inr xs \<Longrightarrow> ps = map Inr xs"
  by (induction ps arbitrary: xs rule: Promise_all.induct) (auto split: sum.splits)

lemma Promise_all_Inr_iff: "Promise_all ps = Inr xs \<longleftrightarrow> ps = map Inr xs"
  using Promise_all_Inr_D Promise_all_map_Inr by blast

lemma Promise_all_rejects: "\<exists>q\<in>set ps. isl q \<Longrightarrow> isl (Promise_all ps)"
proof (induction ps)
  case Nil
  then show ?case by simp
next
  case (Cons q ps)
  then show ?case
    by (cases q) (auto split: sum.splits)
qed

lemma Promise_all_fulfils: "\<forall>q\<in>set ps. \<not> isl q \<Longrightarrow> \<exists>xs. Promise_all ps = Inr xs"
proof (induction ps)
  case Nil
  then show ?case by simp
next
  case (Cons q ps)
  then show ?case
    by (cases q) (auto split: sum.splits)
qed

lemma isl_processEmail:
  "isl (processEmail parse e) \<longleftrightarrow>
     isl (parse (email_body e)) \<or> parse (email_body e) = Inr Throwing"
  by (simp add: processEmail_def Let_def split: sum.splits awaited.splits)

lemma isl_processEmail_part000:
  "isl (processEmail_part000 parse e) \<longleftrightarrow>
     isl (parse (email_body e)) \<or> parse (email_body e) = Inr Throwing"
  by (simp add: processEmail_part000_def Let_def split: sum.splits awaited.splits)

text \<open>A value of the declared type passes \<^verbatim>\<open>parsed.items.some(...)\<close>.\<close>

lemma those_Some_all: "those (map f xs) = Some ys \<Longrightarrow> \<forall>x\<in>set xs. f x \<noteq> None"
  by (induction xs arbitrary: ys) (auto split: option.splits)

lemma OrderItems_callback_returns:
  "\<forall>x\<in>set xs. as_OrderItem x \<noteq> None \<Longrightarrow> \<not> callback_throws xs"
  by (induction xs rule: callback_throws.induct) (simp_all add: as_OrderItem_def)

lemma declared_value_passes: "as_ExtractionResult data = Some p \<Longrightarrow> \<not> some_throws data"
  by (auto simp add: as_ExtractionResult_def some_throws_def
      split: json.splits option.splits dest!: those_Some_all OrderItems_callback_returns)

lemma awaited_of_declared: "as_ExtractionResult data = Some p \<Longrightarrow> awaited_of data = Some (Declared p)"
  by (simp add: awaited_of_def declared_value_passes)

lemma awaited_of_parse_failure_result:
  "awaited_of (parse_failure_result now_iso)
     = Some (Declared \<lparr>parsed_items = [], parsed_date = iso_date_part now_iso\<rparr>)"
  by (simp add: awaited_of_def some_throws_def parse_failure_result_def as_ExtractionResult_def)

lemma awaited_of_examples:
  "awaited_of (JObj []) = Some Throwing"
  "awaited_of JNull = Some Throwing"
  "awaited_of (JObj [(''items'', JArr [JNull]), (''date'', JStr ''2024-03-20'')]) = Some Throwing"
  "awaited_of (JObj [(''items'', JArr []), (''date'', JNum 5)]) = None"
  by (simp_all add: awaited_of_def some_throws_def as_ExtractionResult_def)

subsection \<open>The invariant of the store\<close>

lemma processEmail_hasUdon:
  "processEmail parse e = Inr x \<Longrightarrow> hasUdon x \<longleftrightarrow> (\<exists>i\<in>set (items x). isUdon i)"
  by (auto simp add: processEmail_def Let_def list_ex_iff split: sum.splits awaited.splits)

lemma Promise_all_processEmail_hasUdon:
  assumes "Promise_all (map (processEmail parse) es) = Inr results"
    and "y \<in> set results"
  shows "hasUdon y \<longleftrightarrow> (\<exists>i\<in>set (items y). isUdon i)"
proof -
  from assms(1) have "map (processEmail parse) es = map Inr results"
    by (rule Promise_all_Inr_D)
  then have "set (map (processEmail parse) es) = set (map Inr results)"
    by simp
  with assms(2) have "Inr y \<in> set (map (processEmail parse) es)"
    by simp
  then obtain e where "processEmail parse e = Inr y"
    by auto
  then show ?thesis
    by (rule processEmail_hasUdon)
qed

lemma step_keeps_hasUdon:
  assumes "\<forall>y\<in>set (orders s). hasUdon y \<longleftrightarrow> (\<exists>i\<in>set (items y). isUdon i)"
  shows "\<forall>y\<in>set (orders (step CURRENT_MONTH s ev)). hasUdon y \<longleftrightarrow> (\<exists>i\<in>set (items y). isUdon i)"
proof (cases ev)
  case InitStart
  with assms show ?thesis by (simp add: step_def init_start_def)
next
  case (InitSettle parse)
  show ?thesis
  proof (cases "Promise_all (map (processEmail parse) (MOCK_EMAILS CURRENT_MONTH))")
    case (Inl err)
    with assms InitSettle show ?thesis
      by (simp add: step_def init_settle_def)
  next
    case (Inr results)
    then have "\<forall>y\<in>set results. hasUdon y \<longleftrightarrow> (\<exists>i\<in>set (items y). isUdon i)"
      using Promise_all_processEmail_hasUdon by blast
    with Inr InitSettle show ?thesis
      by (simp add: step_def init_settle_def)
  qed
next
  case (PollTick now)
  with assms show ?thesis by (simp add: step_def poll_tick_def)
next
  case (PollArrived parse e)
  show ?thesis
  proof (cases "processEmail parse e")
    case (Inl err)
    with assms PollArrived show ?thesis
      by (simp add: step_def poll_arrived_def)
  next
    case (Inr processed)
    then have "hasUdon processed \<longleftrightarrow> (\<exists>i\<in>set (items processed). isUdon i)"
      by (rule processEmail_hasUdon)
    with assms Inr PollArrived show ?thesis
      by (simp add: step_def poll_arrived_def append_order_def)
  qed
next
  case ManualStart
  with assms show ?thesis by (simp add: step_def handleManualSync_start_def)
next
  case (ManualFinish now)
  with assms show ?thesis by (simp add: step_def handleManualSync_finish_def)
next
  case (SetAutoSync b)
  with assms show ?thesis by (simp add: step_def)
qed

lemma run_keeps_hasUdon:
  "\<forall>y\<in>set (orders s). hasUdon y \<longleftrightarrow> (\<exists>i\<in>set (items y). isUdon i) \<Longrightarrow>
   \<forall>y\<in>set (orders (run CURRENT_MONTH s evs)). hasUdon y \<longleftrightarrow> (\<exists>i\<in>set (items y). isUdon i)"
proof (induction evs arbitrary: s)
  case Nil
  then show ?case by (simp add: run_def)
next
  case (Cons ev evs)
  from Cons.prems
  have "\<forall>y\<in>set (orders (step CURRENT_MONTH s ev)). hasUdon y \<longleftrightarrow> (\<exists>i\<in>set (items y). isUdon i)"
    by (rule step_keeps_hasUdon)
  then have "\<forall>y\<in>set (orders (run CURRENT_MONTH (step CURRENT_MONTH s ev) evs)).
      hasUdon y \<longleftrightarrow> (\<exists>i\<in>set (items y). isUdon i)"
    by (rule Cons.IH)
  then show ?case by (simp add: run_def)
qed

subsection \<open>The order store\<close>

text \<open>
  Claim C1, as the code has it: appending always puts the order at the front, also
  when an order with the same id is already in the store; in that case the store then
  holds that id more than once. Nothing is compared with the ids already present.
\<close>

theorem append_order_always_prepends:
  "append_order x s = x # s \<and>
   (order_id x \<in> order_id ` set s \<longrightarrow> \<not> distinct (map order_id (append_order x s)))"
  by (simp add: append_order_def)

theorem append_order_always_prepends_witness:
  "order_id (sample_order ''7'' ''2024-03-20'' True)
     \<in> order_id ` set [sample_order ''7'' ''2024-03-20'' True] \<and>
   \<not> distinct (map order_id
        (append_order (sample_order ''7'' ''2024-03-20'' True)
           [sample_order ''7'' ''2024-03-20'' True]))"
  using append_order_always_prepends
    [of "sample_order ''7'' ''2024-03-20'' True" "[sample_order ''7'' ''2024-03-20'' True]"]
  by simp

text \<open>
  Claim C1 as stated fails: appending an order that is already in the store changes the store.
\<close>

theorem append_order_same_id_changes_store:
  "order_id (sample_order ''7'' ''2024-03-20'' True)
     \<in> order_id ` set [sample_order ''7'' ''2024-03-20'' True] \<and>
   append_order (sample_order ''7'' ''2024-03-20'' True) [sample_order ''7'' ''2024-03-20'' True]
     \<noteq> [sample_order ''7'' ''2024-03-20'' True]"
  by (simp add: append_order_def)

subsection \<open>Statistics\<close>

lemma startsWith_iff: "startsWith s p \<longleftrightarrow> (\<exists>t. s = p @ t)"
proof
  assume "startsWith s p"
  then have "s = p @ drop (length p) s"
    unfolding startsWith_def by (metis append_take_drop_id)
  then show "\<exists>t. s = p @ t" ..
next
  assume "\<exists>t. s = p @ t"
  then show "startsWith s p"
    unfolding startsWith_def by auto
qed

lemma CURRENT_MONTH_of_example: "CURRENT_MONTH_of ''2024-03-20T03:04:05.000Z'' = ''2024-03''"
  by (simp add: CURRENT_MONTH_of_def)

text \<open>
  Claim C7: on the empty order list the statistics are exactly zero in every field; the
  percentage is the literal \<open>0\<close> of the guarded branch.
\<close>

theorem stats_empty:
  "stats CURRENT_MONTH [] =
     \<lparr>totalOrders = 0, udonCount = 0, udonPercentage = 0, thisMonthCount = 0\<rparr>"
  by (simp add: stats_def)

lemma stats_part000_is_stats: "stats_part000 os = stats ''2024-03'' os"
  by (simp add: stats_part000_def stats_def)

lemma thisMonthCount_stats:
  "thisMonthCount (stats p os) = length (filter (\<lambda>x. hasUdon x \<and> startsWith (date x) p) os)"
  by (simp add: stats_def Let_def conj_commute)

text \<open>
  Claim C8, as the code has it: the count of the current period is the number of orders
  that have udon and whose date starts with the period that the module holds. In
  \<^verbatim>\<open>geminiService.ts\<close> this is the constant \<^verbatim>\<open>CURRENT_MONTH\<close>, the first seven
  characters of the ISO time stamp of the clock when the module was loaded; in the
  second copy it is the literal \<^verbatim>\<open>'2024-03'\<close>. No caller supplies it.
\<close>

theorem thisMonthCount_module_period:
  "thisMonthCount (stats (CURRENT_MONTH_of load_iso) os)
     = length (filter (\<lambda>x. hasUdon x \<and> startsWith (date x) (take 7 load_iso)) os) \<and>
   thisMonthCount (stats_part000 os)
     = length (filter (\<lambda>x. hasUdon x \<and> startsWith (date x) ''2024-03'') os)"
  by (simp add: thisMonthCount_stats stats_part000_is_stats CURRENT_MONTH_of_def)

text \<open>
  Claim C8 as stated fails: the period is not supplied by the caller. With the module
  loaded in March 2024, and in the second copy at any time, a caller who asks for the
  period \<^verbatim>\<open>2024-04\<close> gets the count of March, 0, for an udon order of the 2nd of
  April, where the specification says 1.
\<close>

theorem thisMonthCount_not_callers_period:
  "CURRENT_MONTH_of ''2024-03-20T03:04:05.000Z'' = ''2024-03'' \<and>
   thisMonthCount (stats (CURRENT_MONTH_of ''2024-03-20T03:04:05.000Z'')
     [sample_order ''1'' ''2024-04-02'' True]) = 0 \<and>
   thisMonthCount (stats_part000 [sample_order ''1'' ''2024-04-02'' True]) = 0 \<and>
   currentPeriodTargetCount_spec [sample_order ''1'' ''2024-04-02'' True] ''2024-04'' = 1"
  by (simp add: stats_def stats_part000_def CURRENT_MONTH_of_def currentPeriodTargetCount_spec_def
      sample_order_def startsWith_def Let_def)

text \<open>
  Claim C10: the count of the current period is at most the udon count, which is at
  most the number of orders.
\<close>

theorem stats_counts_ordered:
  "thisMonthCount (stats p os) \<le> udonCount (stats p os) \<and>
   udonCount (stats p os) \<le> totalOrders (stats p os)"
proof -
  let ?udonOrders = "filter hasUdon os"
  have "length (filter (\<lambda>x. startsWith (date x) p) ?udonOrders) \<le> length ?udonOrders"
    by (rule length_filter_le)
  moreover have "length ?udonOrders \<le> length os"
    by (rule length_filter_le)
  ultimately show ?thesis
    by (simp add: stats_def Let_def del: filter_filter)
qed

subsection \<open>Manual sync\<close>

text \<open>
  Claim C9: a manual sync never changes the orders: neither of its two steps does, for
  whatever state the second step finds after the wait, so the whole call leaves the
  orders as they were; \<open>isSyncing\<close> is on after the first step and off at the end,
  \<open>lastSyncTime\<close> is the clock of the second step, and \<open>autoSync\<close> is kept.
\<close>

theorem handleManualSync_keeps_orders:
  "orders (handleManualSync now s) = orders s \<and>
   orders (handleManualSync_start s) = orders s \<and>
   orders (handleManualSync_finish now s') = orders s' \<and>
   isSyncing (handleManualSync_start s) \<and>
   \<not> isSyncing (handleManualSync now s) \<and>
   lastSyncTime (handleManualSync now s) = now \<and>
   autoSync (handleManualSync now s) = autoSync s"
  by (simp add: handleManualSync_def handleManualSync_start_def handleManualSync_finish_def)

text \<open>The three asynchronous functions, run without interleaving, are runs of the transition system.\<close>

lemma functions_as_runs:
  "init parse CURRENT_MONTH s = run CURRENT_MONTH s [InitStart, InitSettle parse]"
  "handleManualSync now s = run CURRENT_MONTH s [ManualStart, ManualFinish now]"
  "autoSync s \<Longrightarrow>
     poll parse now r_found r_udon new_id now_locale s =
       run CURRENT_MONTH s
         (if r_found > 7 / 10
          then [PollTick now, PollArrived parse (newEmail r_udon new_id now_locale)]
          else [PollTick now])"
  by (simp_all add: run_def step_def init_def handleManualSync_def poll_def Let_def)

subsection \<open>The extraction service\<close>

text \<open>
  Claim C2, as the code has it. A rejection of the service call leaves
  \<open>parseEmailContent\<close> as an error of its caller. When the reply text is not JSON the
  result is \<^verbatim>\<open>{ items: [], date: today }\<close>, with the date of the clock, not the
  empty date. When the reply text is JSON the parsed value is returned as it is,
  whatever its shape.
\<close>

theorem parseEmailContent_outcomes:
  "(generateContent body = Inl err \<longrightarrow>
      parseEmailContent generateContent JSON_parse now_iso body = Inl err) \<and>
   (generateContent body = Inr t \<and> JSON_parse (text_or_braces t) = None \<longrightarrow>
      parseEmailContent generateContent JSON_parse now_iso body = Inr (parse_failure_result now_iso) \<and>
      as_ExtractionResult (parse_failure_result now_iso) =
        Some \<lparr>parsed_items = [], parsed_date = takeWhile (\<lambda>c. c \<noteq> CHR ''T'') now_iso\<rparr>) \<and>
   (generateContent body = Inr t \<and> JSON_parse (text_or_braces t) = Some data \<longrightarrow>
      parseEmailContent generateContent JSON_parse now_iso body = Inr data)"
  by (simp add: parseEmailContent_def parse_failure_result_def as_ExtractionResult_def
      iso_date_part_def hd_js_split)

theorem parseEmailContent_outcomes_witness:
  "service_rejects MOCK_BODY_2 = Inl ServiceRejected \<and>
   parseEmailContent service_rejects sample_JSON_parse ''2024-03-20T03:04:05.000Z'' MOCK_BODY_2
     = Inl ServiceRejected \<and>
   service_says (Some ''oops'') MOCK_BODY_2 = Inr (Some ''oops'') \<and>
   sample_JSON_parse (text_or_braces (Some ''oops'')) = None \<and>
   parseEmailContent (service_says (Some ''oops'')) sample_JSON_parse ''2024-03-20T03:04:05.000Z''
       MOCK_BODY_2
     = Inr (JObj [(''items'', JArr []), (''date'', JStr ''2024-03-20'')]) \<and>
   service_says None MOCK_BODY_2 = Inr None \<and>
   sample_JSON_parse (text_or_braces None) = Some (JObj []) \<and>
   parseEmailContent (service_says None) sample_JSON_parse ''2024-03-20T03:04:05.000Z'' MOCK_BODY_2
     = Inr (JObj [])"
  using
    parseEmailContent_outcomes [of service_rejects MOCK_BODY_2 ServiceRejected sample_JSON_parse
      "''2024-03-20T03:04:05.000Z''" None "JObj []"]
    parseEmailContent_outcomes [of "service_says (Some ''oops'')" MOCK_BODY_2 ServiceRejected
      sample_JSON_parse "''2024-03-20T03:04:05.000Z''" "Some ''oops''" "JObj []"]
    parseEmailContent_outcomes [of "service_says None" MOCK_BODY_2 ServiceRejected
      sample_JSON_parse "''2024-03-20T03:04:05.000Z''" None "JObj []"]
  by (simp add: service_rejects_def service_says_def sample_JSON_parse_def text_or_braces_def
      or_else_def parse_failure_result_def iso_date_part_def)

text \<open>
  Claim C2 as stated fails in each of its failure modes: a rejected service call raises,
  a reply that is not JSON gives a dated result, and an empty reply gives the object
  \<^verbatim>\<open>{}\<close>; none of them is the empty result.
\<close>

theorem parseEmailContent_failure_not_empty_result:
  "parseEmailContent service_rejects sample_JSON_parse ''2024-03-20T03:04:05.000Z'' MOCK_BODY_2
     = Inl ServiceRejected \<and>
   \<not> returns_empty_result
       (parseEmailContent service_rejects sample_JSON_parse ''2024-03-20T03:04:05.000Z'' MOCK_BODY_2) \<and>
   \<not> returns_empty_result
       (parseEmailContent (service_says (Some ''oops'')) sample_JSON_parse
          ''2024-03-20T03:04:05.000Z'' MOCK_BODY_2) \<and>
   \<not> returns_empty_result
       (parseEmailContent (service_says None) sample_JSON_parse ''2024-03-20T03:04:05.000Z''
          MOCK_BODY_2)"
  by (simp add: parseEmailContent_def service_rejects_def service_says_def sample_JSON_parse_def
      text_or_braces_def or_else_def parse_failure_result_def iso_date_part_def
      returns_empty_result_def as_ExtractionResult_def empty_result_def)

subsection \<open>The order builder\<close>

text \<open>
  Claim C3, as the code has it: the date of the order is the extracted date when that is
  not empty, and otherwise the part of the e-mail's date before its first space
  character. There is no third choice: the date of the order is empty exactly when
  the extracted date is empty and the e-mail's date is empty or starts with a space.
\<close>

theorem processEmail_date:
  "parse (email_body e) = Inr (Declared p) \<Longrightarrow>
   \<exists>x. processEmail parse e = Inr x \<and>
       date x = (if parsed_date p \<noteq> [] then parsed_date p
                 else takeWhile (\<lambda>c. c \<noteq> CHR '' '') (email_date e)) \<and>
       (date x = [] \<longleftrightarrow>
          parsed_date p = [] \<and> (email_date e = [] \<or> hd (email_date e) = CHR '' ''))"
  by (auto simp add: processEmail_def Let_def or_else_def hd_js_split takeWhile_eq_Nil_iff)

theorem processEmail_date_witness:
  "replies_empty (email_body sample_email) = Inr (Declared empty_result) \<and>
   (\<exists>x. processEmail replies_empty sample_email = Inr x \<and> date x = ''2024-03-18'')"
  using processEmail_date [of replies_empty sample_email empty_result]
  by (auto simp add: replies_empty_def empty_result_def sample_email_def)

text \<open>
  Claim C3 as stated fails: with an empty extracted date and an empty e-mail date the
  order is built with the empty date.
\<close>

theorem processEmail_date_can_be_empty:
  "processEmail replies_empty undated_email =
     Inr \<lparr>order_id = ''4'', date = '''', sender = SENDER, subject = MAIL_SUBJECT,
          items = [], fullText = MOCK_BODY_2, hasUdon = False\<rparr>"
  by (simp add: processEmail_def replies_empty_def empty_result_def undated_email_def or_else_def)

text \<open>
  Claim C5: an order that \<open>processEmail\<close> returns has \<open>hasUdon\<close> exactly when one of
  its items has \<open>isUdon\<close>, and every order in the store has this property after any
  sequence of events, because no event changes an order that is in the store.
\<close>

theorem hasUdon_iff_some_item_isUdon:
  "(processEmail parse e = Inr x \<longrightarrow> (hasUdon x \<longleftrightarrow> (\<exists>i\<in>set (items x). isUdon i))) \<and>
   (\<forall>y\<in>set (orders (run CURRENT_MONTH (initial_app t0) evs)).
      hasUdon y \<longleftrightarrow> (\<exists>i\<in>set (items y). isUdon i))"
proof
  show "processEmail parse e = Inr x \<longrightarrow> (hasUdon x \<longleftrightarrow> (\<exists>i\<in>set (items x). isUdon i))"
    using processEmail_hasUdon by blast
next
  have "\<forall>y\<in>set (orders (initial_app t0)). hasUdon y \<longleftrightarrow> (\<exists>i\<in>set (items y). isUdon i)"
    by (simp add: initial_app_def)
  then show "\<forall>y\<in>set (orders (run CURRENT_MONTH (initial_app t0) evs)).
      hasUdon y \<longleftrightarrow> (\<exists>i\<in>set (items y). isUdon i)"
    by (rule run_keeps_hasUdon)
qed

theorem hasUdon_iff_some_item_isUdon_witness:
  "processEmail replies_kitsune sample_email =
     Inr \<lparr>order_id = ''2'', date = ''2024-03-20'', sender = SENDER, subject = MAIL_SUBJECT,
          items = parsed_items kitsune_reply, fullText = MOCK_BODY_2, hasUdon = True\<rparr> \<and>
   (\<exists>i\<in>set (parsed_items kitsune_reply). isUdon i) \<and>
   length (orders (run ''2024-03'' (initial_app 0) sample_events)) = 4 \<and>
   list_all (\<lambda>y. hasUdon y = list_ex isUdon (items y))
     (orders (run ''2024-03'' (initial_app 0) sample_events))"
proof -
  have built: "processEmail replies_kitsune sample_email =
     Inr \<lparr>order_id = ''2'', date = ''2024-03-20'', sender = SENDER, subject = MAIL_SUBJECT,
          items = parsed_items kitsune_reply, fullText = MOCK_BODY_2, hasUdon = True\<rparr>"
    by (simp add: processEmail_def replies_kitsune_def kitsune_reply_def sample_email_def
        or_else_def)
  have some: "\<exists>i\<in>set (parsed_items kitsune_reply). isUdon i"
    by (simp add: kitsune_reply_def)
  have four: "length (orders (run ''2024-03'' (initial_app 0) sample_events)) = 4"
    by (simp add: run_def sample_events_def step_def initial_app_def init_start_def
        init_settle_def MOCK_EMAILS_def processEmail_def replies_kitsune_def replies_empty_def
        poll_tick_def poll_arrived_def append_order_def handleManualSync_start_def
        handleManualSync_finish_def Let_def)
  show ?thesis
    using built some four
      hasUdon_iff_some_item_isUdon [of replies_kitsune sample_email
        "\<lparr>order_id = ''2'', date = ''2024-03-20'', sender = SENDER, subject = MAIL_SUBJECT,
          items = parsed_items kitsune_reply, fullText = MOCK_BODY_2, hasUdon = True\<rparr>"
        "''2024-03''" 0 sample_events]
    by (simp add: list_all_iff list_ex_iff)
qed

subsection \<open>Initial load\<close>

text \<open>
  Claim C4, as the code has it. The initial load is all or nothing. When
  \<open>processEmail\<close> returns for every mock e-mail, the orders become the list of the
  built orders, in the order of the e-mails (they replace what the store held). When
  \<open>processEmail\<close> raises for one e-mail, \<^verbatim>\<open>Promise.all\<close> rejects and the orders
  stay as they were, so the orders built from the other e-mails are dropped.
  \<open>processEmail\<close> raises when the service call is rejected, and also when the call
  returned a value on which \<^verbatim>\<open>parsed.items.some(...)\<close> throws. In
  \<^verbatim>\<open>geminiService.ts\<close> \<open>isSyncing\<close> is off at the end in both cases. The
  second copy treats the orders in the same way and switches \<open>isSyncing\<close> off when
  the batch is fulfilled.
\<close>

theorem init_all_or_nothing:
  "\<not> isSyncing (init_settle parse CURRENT_MONTH s) \<and>
   \<not> isSyncing (init parse CURRENT_MONTH s) \<and>
   ((\<exists>e\<in>set (MOCK_EMAILS CURRENT_MONTH). isl (processEmail parse e)) \<longrightarrow>
      orders (init_settle parse CURRENT_MONTH s) = orders s) \<and>
   ((\<forall>e\<in>set (MOCK_EMAILS CURRENT_MONTH). \<not> isl (processEmail parse e)) \<longrightarrow>
      map Inr (orders (init_settle parse CURRENT_MONTH s))
        = map (processEmail parse) (MOCK_EMAILS CURRENT_MONTH)) \<and>
   (isl (processEmail parse e) \<longleftrightarrow>
      isl (parse (email_body e)) \<or> parse (email_body e) = Inr Throwing) \<and>
   ((\<exists>e\<in>set MOCK_EMAILS_part000. isl (processEmail_part000 parse e)) \<longrightarrow>
      orders (init_settle_part000 parse s) = orders s) \<and>
   ((\<forall>e\<in>set MOCK_EMAILS_part000. \<not> isl (processEmail_part000 parse e)) \<longrightarrow>
      map Inr (orders (init_settle_part000 parse s))
        = map (processEmail_part000 parse) MOCK_EMAILS_part000 \<and>
      \<not> isSyncing (init_settle_part000 parse s))"
proof (intro conjI impI)
  show "\<not> isSyncing (init_settle parse CURRENT_MONTH s)"
    by (simp add: init_settle_def Let_def)
  show "\<not> isSyncing (init parse CURRENT_MONTH s)"
    by (simp add: init_def init_settle_def Let_def)
  show "isl (processEmail parse e) \<longleftrightarrow>
      isl (parse (email_body e)) \<or> parse (email_body e) = Inr Throwing"
    by (rule isl_processEmail)
next
  assume "\<exists>e\<in>set (MOCK_EMAILS CURRENT_MONTH). isl (processEmail parse e)"
  then have "\<exists>q\<in>set (map (processEmail parse) (MOCK_EMAILS CURRENT_MONTH)). isl q"
    by simp
  then have "isl (Promise_all (map (processEmail parse) (MOCK_EMAILS CURRENT_MONTH)))"
    by (rule Promise_all_rejects)
  then show "orders (init_settle parse CURRENT_MONTH s) = orders s"
    by (auto simp add: init_settle_def Let_def split: sum.splits)
next
  assume "\<forall>e\<in>set (MOCK_EMAILS CURRENT_MONTH). \<not> isl (processEmail parse e)"
  then have "\<forall>q\<in>set (map (processEmail parse) (MOCK_EMAILS CURRENT_MONTH)). \<not> isl q"
    by simp
  then obtain results
    where results: "Promise_all (map (processEmail parse) (MOCK_EMAILS CURRENT_MONTH)) = Inr results"
    using Promise_all_fulfils by blast
  then have "map (processEmail parse) (MOCK_EMAILS CURRENT_MONTH) = map Inr results"
    by (rule Promise_all_Inr_D)
  moreover have "orders (init_settle parse CURRENT_MONTH s) = results"
    using results by (simp add: init_settle_def Let_def)
  ultimately show "map Inr (orders (init_settle parse CURRENT_MONTH s))
        = map (processEmail parse) (MOCK_EMAILS CURRENT_MONTH)"
    by simp
next
  assume "\<exists>e\<in>set MOCK_EMAILS_part000. isl (processEmail_part000 parse e)"
  then have "\<exists>q\<in>set (map (processEmail_part000 parse) MOCK_EMAILS_part000). isl q"
    by simp
  then have "isl (Promise_all (map (processEmail_part000 parse) MOCK_EMAILS_part000))"
    by (rule Promise_all_rejects)
  then show "orders (init_settle_part000 parse s) = orders s"
    by (auto simp add: init_settle_part000_def split: sum.splits)
next
  assume returns: "\<forall>e\<in>set MOCK_EMAILS_part000. \<not> isl (processEmail_part000 parse e)"
  then have "\<forall>q\<in>set (map (processEmail_part000 parse) MOCK_EMAILS_part000). \<not> isl q"
    by simp
  then obtain results
    where results: "Promise_all (map (processEmail_part000 parse) MOCK_EMAILS_part000) = Inr results"
    using Promise_all_fulfils by blast
  then have "map (processEmail_part000 parse) MOCK_EMAILS_part000 = map Inr results"
    by (rule Promise_all_Inr_D)
  moreover have "orders (init_settle_part000 parse s) = results"
    using results by (simp add: init_settle_part000_def)
  ultimately show "map Inr (orders (init_settle_part000 parse s))
        = map (processEmail_part000 parse) MOCK_EMAILS_part000"
    by simp
  show "\<not> isSyncing (init_settle_part000 parse s)"
    using results by (simp add: init_settle_part000_def)
qed

theorem init_all_or_nothing_witness:
  "list_ex (\<lambda>e. isl (processEmail second_fails e)) (MOCK_EMAILS ''2024-03'') \<and>
   orders (init_settle second_fails ''2024-03'' (init_start (initial_app 0)))
     = orders (init_start (initial_app 0)) \<and>
   list_ex (\<lambda>e. isl (processEmail second_is_empty_object e)) (MOCK_EMAILS ''2024-03'') \<and>
   orders (init_settle second_is_empty_object ''2024-03'' (init_start (initial_app 0)))
     = orders (init_start (initial_app 0)) \<and>
   list_all (\<lambda>e. \<not> isl (processEmail replies_empty e)) (MOCK_EMAILS ''2024-03'') \<and>
   map order_id (orders (init_settle replies_empty ''2024-03'' (init_start (initial_app 0))))
     = [''1'', ''2'', ''3''] \<and>
   map date (orders (init_settle replies_empty ''2024-03'' (init_start (initial_app 0))))
     = [''2024-03-20'', ''2024-03-18'', ''2024-03-15''] \<and>
   \<not> isSyncing (init second_fails ''2024-03'' (initial_app 0)) \<and>
   list_ex (\<lambda>e. isl (processEmail_part000 second_is_empty_object e)) MOCK_EMAILS_part000 \<and>
   orders (init_settle_part000 second_is_empty_object (init_start (initial_app 0)))
     = orders (init_start (initial_app 0)) \<and>
   list_all (\<lambda>e. \<not> isl (processEmail_part000 replies_kitsune e)) MOCK_EMAILS_part000 \<and>
   map order_id (orders (init_settle_part000 replies_kitsune (init_start (initial_app 0))))
     = [''1'', ''2'', ''3''] \<and>
   \<not> isSyncing (init_settle_part000 replies_kitsune (init_start (initial_app 0)))"
proof -
  have fails: "\<exists>e\<in>set (MOCK_EMAILS ''2024-03''). isl (processEmail second_fails e)"
    by (simp add: MOCK_EMAILS_def processEmail_def second_fails_def)
  have throws: "\<exists>e\<in>set (MOCK_EMAILS ''2024-03''). isl (processEmail second_is_empty_object e)"
    by (simp add: MOCK_EMAILS_def processEmail_def second_is_empty_object_def)
  have returns: "\<forall>e\<in>set (MOCK_EMAILS ''2024-03''). \<not> isl (processEmail replies_empty e)"
    by (simp add: isl_processEmail replies_empty_def)
  have throws0: "\<exists>e\<in>set MOCK_EMAILS_part000. isl (processEmail_part000 second_is_empty_object e)"
    by (simp add: MOCK_EMAILS_part000_def processEmail_part000_def second_is_empty_object_def)
  have returns0: "\<forall>e\<in>set MOCK_EMAILS_part000. \<not> isl (processEmail_part000 replies_kitsune e)"
    by (simp add: isl_processEmail_part000 replies_kitsune_def)
  have built: "map (processEmail replies_empty) (MOCK_EMAILS ''2024-03'') =
      map Inr
        [\<lparr>order_id = ''1'', date = ''2024-03-20'', sender = SENDER, subject = MAIL_SUBJECT,
          items = [], fullText = MOCK_BODY_1, hasUdon = False\<rparr>,
         \<lparr>order_id = ''2'', date = ''2024-03-18'', sender = SENDER, subject = MAIL_SUBJECT,
          items = [], fullText = MOCK_BODY_2, hasUdon = False\<rparr>,
         \<lparr>order_id = ''3'', date = ''2024-03-15'', sender = SENDER, subject = MAIL_SUBJECT,
          items = [], fullText = MOCK_BODY_3, hasUdon = False\<rparr>]"
    by (simp add: MOCK_EMAILS_def processEmail_def replies_empty_def empty_result_def or_else_def)
  have built0: "map (processEmail_part000 replies_kitsune) MOCK_EMAILS_part000 =
      map Inr
        [\<lparr>order_id = ''1'', date = ''2024-03-20'', sender = SENDER, subject = MAIL_SUBJECT,
          items = parsed_items kitsune_reply, fullText = MOCK_BODY_1, hasUdon = True\<rparr>,
         \<lparr>order_id = ''2'', date = ''2024-03-20'', sender = SENDER, subject = MAIL_SUBJECT,
          items = parsed_items kitsune_reply, fullText = MOCK_BODY_2, hasUdon = True\<rparr>,
         \<lparr>order_id = ''3'', date = ''2024-03-20'', sender = SENDER, subject = MAIL_SUBJECT,
          items = parsed_items kitsune_reply, fullText = MOCK_BODY_3, hasUdon = True\<rparr>]"
    by (simp add: MOCK_EMAILS_part000_def processEmail_part000_def replies_kitsune_def
        kitsune_reply_def)
  from init_all_or_nothing [of second_fails "''2024-03''" "init_start (initial_app 0)"] fails
  have dropped: "orders (init_settle second_fails ''2024-03'' (init_start (initial_app 0)))
     = orders (init_start (initial_app 0))"
    and off: "\<not> isSyncing (init second_fails ''2024-03'' (initial_app 0))"
    by (simp_all add: init_def)
  from init_all_or_nothing [of second_is_empty_object "''2024-03''" "init_start (initial_app 0)"]
    throws throws0
  have dropped': "orders (init_settle second_is_empty_object ''2024-03'' (init_start (initial_app 0)))
     = orders (init_start (initial_app 0))"
    and dropped0: "orders (init_settle_part000 second_is_empty_object (init_start (initial_app 0)))
     = orders (init_start (initial_app 0))"
    by blast+
  from init_all_or_nothing [of replies_empty "''2024-03''" "init_start (initial_app 0)"] returns
  have "map Inr (orders (init_settle replies_empty ''2024-03'' (init_start (initial_app 0))))
        = map (processEmail replies_empty) (MOCK_EMAILS ''2024-03'')"
    by blast
  also note built
  finally have "orders (init_settle replies_empty ''2024-03'' (init_start (initial_app 0))) =
        [\<lparr>order_id = ''1'', date = ''2024-03-20'', sender = SENDER, subject = MAIL_SUBJECT,
          items = [], fullText = MOCK_BODY_1, hasUdon = False\<rparr>,
         \<lparr>order_id = ''2'', date = ''2024-03-18'', sender = SENDER, subject = MAIL_SUBJECT,
          items = [], fullText = MOCK_BODY_2, hasUdon = False\<rparr>,
         \<lparr>order_id = ''3'', date = ''2024-03-15'', sender = SENDER, subject = MAIL_SUBJECT,
          items = [], fullText = MOCK_BODY_3, hasUdon = False\<rparr>]"
    by (simp only: inj_map_eq_map [OF inj_Inr])
  then have ids: "map order_id (orders (init_settle replies_empty ''2024-03'' (init_start (initial_app 0))))
       = [''1'', ''2'', ''3'']"
    and dates: "map date (orders (init_settle replies_empty ''2024-03'' (init_start (initial_app 0))))
       = [''2024-03-20'', ''2024-03-18'', ''2024-03-15'']"
    by simp_all
  from init_all_or_nothing [of replies_kitsune "''2024-03''" "init_start (initial_app 0)"] returns0
  have stored0: "map Inr (orders (init_settle_part000 replies_kitsune (init_start (initial_app 0))))
        = map (processEmail_part000 replies_kitsune) MOCK_EMAILS_part000"
    and off0: "\<not> isSyncing (init_settle_part000 replies_kitsune (init_start (initial_app 0)))"
    by blast+
  note stored0
  also note built0
  finally have "orders (init_settle_part000 replies_kitsune (init_start (initial_app 0))) =
        [\<lparr>order_id = ''1'', date = ''2024-03-20'', sender = SENDER, subject = MAIL_SUBJECT,
          items = parsed_items kitsune_reply, fullText = MOCK_BODY_1, hasUdon = True\<rparr>,
         \<lparr>order_id = ''2'', date = ''2024-03-20'', sender = SENDER, subject = MAIL_SUBJECT,
          items = parsed_items kitsune_reply, fullText = MOCK_BODY_2, hasUdon = True\<rparr>,
         \<lparr>order_id = ''3'', date = ''2024-03-20'', sender = SENDER, subject = MAIL_SUBJECT,
          items = parsed_items kitsune_reply, fullText = MOCK_BODY_3, hasUdon = True\<rparr>]"
    by (simp only: inj_map_eq_map [OF inj_Inr])
  then have ids0: "map order_id (orders (init_settle_part000 replies_kitsune (init_start (initial_app 0))))
       = [''1'', ''2'', ''3'']"
    by simp
  from fails throws returns throws0 returns0 dropped dropped' dropped0 off off0 ids dates ids0
  show ?thesis
    by (simp add: list_all_iff list_ex_iff)
qed

text \<open>
  Claim C4 as stated fails. When the service call for the second mock e-mail is
  rejected and the other two extractions succeed, the store holds no order after the
  initial load. The same happens when all three extractions return and the reply text
  for the second e-mail is empty: \<open>parseEmailContent\<close> returns the object
  \<^verbatim>\<open>{}\<close>, \<^verbatim>\<open>parsed.items.some(...)\<close> throws, and the batch is dropped.
\<close>

theorem init_one_failure_drops_batch:
  "second_fails MOCK_BODY_1 = Inr (Declared kitsune_reply) \<and>
   second_fails MOCK_BODY_2 = Inl ServiceRejected \<and>
   second_fails MOCK_BODY_3 = Inr (Declared kitsune_reply) \<and>
   orders (init second_fails ''2024-03'' (initial_app 0)) = [] \<and>
   parseEmailContent (service_says None) sample_JSON_parse ''2024-03-20T03:04:05.000Z'' MOCK_BODY_2
     = Inr (JObj []) \<and>
   awaited_of (JObj []) = Some Throwing \<and>
   second_is_empty_object MOCK_BODY_1 = Inr (Declared kitsune_reply) \<and>
   second_is_empty_object MOCK_BODY_2 = Inr Throwing \<and>
   second_is_empty_object MOCK_BODY_3 = Inr (Declared kitsune_reply) \<and>
   orders (init second_is_empty_object ''2024-03'' (initial_app 0)) = []"
proof -
  have "MOCK_BODY_1 \<noteq> MOCK_BODY_2"
    by (simp add: MOCK_BODY_1_def MOCK_BODY_2_def)
  moreover have "MOCK_BODY_3 \<noteq> MOCK_BODY_2"
    by (simp add: MOCK_BODY_3_def MOCK_BODY_2_def)
  moreover have "parseEmailContent (service_says None) sample_JSON_parse
      ''2024-03-20T03:04:05.000Z'' MOCK_BODY_2 = Inr (JObj [])"
    by (simp add: parseEmailContent_def service_says_def sample_JSON_parse_def text_or_braces_def)
  moreover have "awaited_of (JObj []) = Some Throwing"
    by (simp add: awaited_of_def some_throws_def)
  ultimately show ?thesis
    by (simp add: second_fails_def second_is_empty_object_def init_def init_start_def
        init_settle_def initial_app_def MOCK_EMAILS_def processEmail_def Let_def)
qed

subsection \<open>The chart series\<close>

text \<open>
  Sorting with a comparison function keeps the elements; the result is sorted when the
  comparison is a total preorder (any two strings are comparable, and the comparison
  is transitive).
\<close>

lemma mset_insert_by: "mset (insert_by cmp x ys) = add_mset x (mset ys)"
  by (induction ys) auto

lemma mset_sort_by: "mset (sort_by cmp xs) = mset xs"
  by (induction xs) (auto simp: sort_by_def mset_insert_by)

lemma set_insert_by: "set (insert_by cmp x ys) = insert x (set ys)"
  by (induction ys) auto

lemma sorted_insert_by:
  assumes total: "\<And>a b. cmp a b \<le> 0 \<or> cmp b a \<le> 0"
    and trans: "\<And>a b c. cmp a b \<le> 0 \<Longrightarrow> cmp b c \<le> 0 \<Longrightarrow> cmp a c \<le> 0"
    and sorted: "sorted_wrt (\<lambda>a b. cmp a b \<le> 0) ys"
  shows "sorted_wrt (\<lambda>a b. cmp a b \<le> 0) (insert_by cmp x ys)"
  using sorted
proof (induction ys)
  case Nil
  then show ?case by simp
next
  case (Cons y ys)
  show ?case
  proof (cases "cmp x y \<le> 0")
    case True
    then have "\<forall>z\<in>set ys. cmp x z \<le> 0"
      using Cons.prems trans by auto
    with True Cons.prems show ?thesis by simp
  next
    case False
    then have "cmp y x \<le> 0"
      using total by blast
    with False Cons show ?thesis
      by (auto simp: set_insert_by)
  qed
qed

lemma sorted_sort_by:
  assumes total: "\<And>a b. cmp a b \<le> 0 \<or> cmp b a \<le> 0"
    and trans: "\<And>a b c. cmp a b \<le> 0 \<Longrightarrow> cmp b c \<le> 0 \<Longrightarrow> cmp a c \<le> 0"
  shows "sorted_wrt (\<lambda>a b. cmp a b \<le> 0) (sort_by cmp xs)"
proof (induction xs)
  case Nil
  show ?case by (simp add: sort_by_def)
next
  case (Cons x xs)
  then have "sorted_wrt (\<lambda>a b. cmp a b \<le> 0) (insert_by cmp x (sort_by cmp xs))"
    using total trans by (intro sorted_insert_by) auto
  then show ?case by (simp add: sort_by_def)
qed

text \<open>\<^verbatim>\<open>Object.values\<close> lists every own property once; \<^verbatim>\<open>slice(-n)\<close> keeps a suffix.\<close>

lemma image_mset_partition:
  "image_mset f (filter_mset P M) + image_mset f (filter_mset (\<lambda>x. \<not> P x) M) = image_mset f M"
  by (metis image_mset_union multiset_partition)

lemma mset_Object_values: "mset (Object_values props) = image_mset snd (mset props)"
proof -
  have "mset (Object_values props) =
      image_mset snd (filter_mset (\<lambda>p. array_index (fst p) \<noteq> None) (mset props)) +
      image_mset snd (filter_mset (\<lambda>p. \<not> array_index (fst p) \<noteq> None) (mset props))"
    unfolding Object_values_def
    by (simp only: map_append mset_append mset_map mset_sort mset_filter not_not)
  then show ?thesis
    by (simp only: image_mset_partition)
qed

lemma length_slice_last: "length (slice_last n xs) = min n (length xs)"
  by (auto simp: slice_last_def)

lemma slice_last_all: "length xs \<le> n \<Longrightarrow> slice_last n xs = xs"
  by (simp add: slice_last_def)

lemma slice_last_suffix: "take (length xs - n) xs @ slice_last n xs = xs"
  by (simp add: slice_last_def)

text \<open>
  The groups after the loop: one own property for each date of an order that is not the
  name of an inherited property, holding the counts of the orders of that date. Orders
  whose date is such a name are counted nowhere.
\<close>

lemma map_fst_bump:
  "map fst (map (\<lambda>(k, b). if k = d then (k, g b) else (k, b)) G) = map fst G"
  by (induction G) auto

lemma map_of_bump:
  "map_of (map (\<lambda>(k, b). if k = d then (k, g b) else (k, b)) G) k
     = (if k = d then map_option g (map_of G k) else map_of G k)"
  by (induction G) auto

lemma keys_count_order:
  "map fst (count_order G x)
     = (if has_truthy G (date x) then map fst G else map fst G @ [date x])"
  by (auto simp add: count_order_def Let_def split: prod.splits)

lemma map_of_count_order:
  "map_of (count_order G x) k =
     (if k \<noteq> date x then map_of G k
      else if map_of G k = None \<and> k \<in> set Object_prototype_names then None
      else Some (add_one (hasUdon x)
             (case map_of G k of
                None \<Rightarrow> \<lparr>bucket_date = k, others = 0, udon = 0\<rparr>
              | Some b \<Rightarrow> b)))"
  by (auto simp add: count_order_def Let_def map_of_bump has_truthy_def map_add_def
      split: option.splits)

lemma distinct_count_order:
  assumes "distinct (map fst G)"
  shows "distinct (map fst (count_order G x))"
proof (cases "has_truthy G (date x)")
  case True
  with assms show ?thesis by (simp add: keys_count_order)
next
  case False
  then have "map_of G (date x) = None"
    by (simp add: has_truthy_def)
  then have "date x \<notin> set (map fst G)"
    by (simp add: map_of_eq_None_iff)
  with assms False show ?thesis by (simp add: keys_count_order)
qed

lemma count_on_snoc:
  "count_on d u (os @ [x]) = count_on d u os + (if date x = d \<and> hasUdon x = u then 1 else 0)"
  by (simp add: count_on_def)

lemma groups_spec:
  "distinct (map fst (foldl count_order [] os)) \<and>
   (\<forall>k. map_of (foldl count_order [] os) k =
      (if k \<in> date ` set os \<and> k \<notin> set Object_prototype_names
       then Some \<lparr>bucket_date = k, others = count_on k False os, udon = count_on k True os\<rparr>
       else None))"
proof (induction os rule: rev_induct)
  case Nil
  show ?case by simp
next
  case (snoc x os)
  let ?G = "foldl count_order [] os"
  from snoc have dist: "distinct (map fst ?G)"
    and look: "\<And>k. map_of ?G k =
      (if k \<in> date ` set os \<and> k \<notin> set Object_prototype_names
       then Some \<lparr>bucket_date = k, others = count_on k False os, udon = count_on k True os\<rparr>
       else None)"
    by simp_all
  have "distinct (map fst (count_order ?G x))"
    using dist by (rule distinct_count_order)
  moreover have "map_of (count_order ?G x) k =
      (if k \<in> date ` set (os @ [x]) \<and> k \<notin> set Object_prototype_names
       then Some \<lparr>bucket_date = k, others = count_on k False (os @ [x]),
                  udon = count_on k True (os @ [x])\<rparr>
       else None)" for k
  proof (cases "k = date x")
    case False
    then show ?thesis
      by (auto simp add: map_of_count_order look count_on_snoc)
  next
    case True
    show ?thesis
    proof (cases "k \<in> set Object_prototype_names")
      case True
      with \<open>k = date x\<close> show ?thesis
        by (simp add: map_of_count_order look)
    next
      case False
      with \<open>k = date x\<close> show ?thesis
        by (cases "hasUdon x")
          (auto simp add: map_of_count_order look count_on_snoc add_one_def count_on_def
            filter_empty_conv image_iff)
    qed
  qed
  ultimately show ?case by simp
qed

lemma groups_distinct: "distinct (map fst (foldl count_order [] os))"
  using groups_spec by blast

lemma groups_lookup:
  "map_of (foldl count_order [] os) k =
      (if k \<in> date ` set os \<and> k \<notin> set Object_prototype_names
       then Some \<lparr>bucket_date = k, others = count_on k False os, udon = count_on k True os\<rparr>
       else None)"
  using groups_spec by blast

lemma groups_keys:
  "fst ` set (foldl count_order [] os) = {d \<in> date ` set os. d \<notin> set Object_prototype_names}"
proof -
  have "k \<in> fst ` set (foldl count_order [] os) \<longleftrightarrow>
      k \<in> date ` set os \<and> k \<notin> set Object_prototype_names" for k
  proof -
    have "k \<in> fst ` set (foldl count_order [] os) \<longleftrightarrow> map_of (foldl count_order [] os) k \<noteq> None"
      by (simp add: map_of_eq_None_iff)
    also have "\<dots> \<longleftrightarrow> k \<in> date ` set os \<and> k \<notin> set Object_prototype_names"
      by (simp only: groups_lookup) simp
    finally show ?thesis .
  qed
  then show ?thesis by blast
qed

lemma groups_member:
  assumes "(k, b) \<in> set (foldl count_order [] os)"
  shows "k \<in> date ` set os \<and> k \<notin> set Object_prototype_names \<and>
    b = \<lparr>bucket_date = k, others = count_on k False os, udon = count_on k True os\<rparr>"
proof -
  from assms have "map_of (foldl count_order [] os) k = Some b"
    using groups_distinct by simp
  then show ?thesis
    by (simp only: groups_lookup) (simp split: if_splits)
qed

lemma sum_bump:
  "distinct (map fst G) \<Longrightarrow>
   sum_list (map (\<lambda>p. bucket_total (snd p))
       (map (\<lambda>(k, b). if k = d then (k, add_one u b) else (k, b)) G))
     = sum_list (map (\<lambda>p. bucket_total (snd p)) G) + (if d \<in> fst ` set G then 1 else 0)"
  by (induction G) (auto simp add: bucket_total_def add_one_def image_iff)

lemma sum_count_order:
  assumes dist: "distinct (map fst G)"
    and own: "fst ` set G \<inter> set Object_prototype_names = {}"
  shows "sum_list (map (\<lambda>p. bucket_total (snd p)) (count_order G x))
     = sum_list (map (\<lambda>p. bucket_total (snd p)) G)
       + (if date x \<in> set Object_prototype_names then 0 else 1)"
proof (cases "has_truthy G (date x)")
  case True
  then have "count_order G x
      = map (\<lambda>(k, b). if k = date x then (k, add_one (hasUdon x) b) else (k, b)) G"
    by (simp add: count_order_def)
  moreover have "date x \<in> fst ` set G \<longleftrightarrow> date x \<notin> set Object_prototype_names"
    using True own by (auto simp add: has_truthy_def map_of_eq_None_iff)
  ultimately show ?thesis
    using dist by (simp add: sum_bump del: map_map)
next
  case False
  let ?G' = "G @ [(date x, \<lparr>bucket_date = date x, others = 0, udon = 0\<rparr>)]"
  from False have fresh: "date x \<notin> fst ` set G" and own': "date x \<notin> set Object_prototype_names"
    by (simp_all add: has_truthy_def map_of_eq_None_iff)
  from False have "count_order G x
      = map (\<lambda>(k, b). if k = date x then (k, add_one (hasUdon x) b) else (k, b)) ?G'"
    by (simp add: count_order_def Let_def)
  moreover have "distinct (map fst ?G')"
    using dist fresh by simp
  ultimately have "sum_list (map (\<lambda>p. bucket_total (snd p)) (count_order G x))
      = sum_list (map (\<lambda>p. bucket_total (snd p)) ?G') + 1"
    by (simp add: sum_bump del: map_map map_append)
  then show ?thesis
    using own' by (simp add: bucket_total_def)
qed

lemma groups_total:
  "sum_list (map (\<lambda>p. bucket_total (snd p)) (foldl count_order [] os))
     = length (filter (\<lambda>x. date x \<notin> set Object_prototype_names) os)"
proof (induction os rule: rev_induct)
  case Nil
  show ?case by simp
next
  case (snoc x os)
  have "fst ` set (foldl count_order [] os) \<inter> set Object_prototype_names = {}"
    by (auto simp add: groups_keys)
  with groups_distinct
  have "sum_list (map (\<lambda>p. bucket_total (snd p)) (count_order (foldl count_order [] os) x))
     = sum_list (map (\<lambda>p. bucket_total (snd p)) (foldl count_order [] os))
       + (if date x \<in> set Object_prototype_names then 0 else 1)"
    by (rule sum_count_order)
  with snoc show ?case
    by simp
qed

lemma groups_length:
  "length (foldl count_order [] os)
     = card {d \<in> date ` set os. d \<notin> set Object_prototype_names}"
proof -
  have "card (set (map fst (foldl count_order [] os))) = length (map fst (foldl count_order [] os))"
    using groups_distinct by (rule distinct_card)
  then show ?thesis
    by (simp add: groups_keys)
qed

text \<open>
  The series: every bucket holds the counts of its date, no date occurs twice, the
  series is sorted by the comparison and has at most 14 buckets, the buckets cut off
  are the first ones of the sorted list, and when at most 14 dates occur the counts
  add up to the number of orders whose date is not the name of an inherited property.
\<close>

lemma mset_sorted_groups:
  "mset (sort_by c (Object_values (foldl count_order [] os)))
     = image_mset snd (mset (foldl count_order [] os))"
  by (simp add: mset_sort_by mset_Object_values)

lemma set_chartData:
  "set (chartData localeCompare os) \<subseteq> snd ` set (foldl count_order [] os)"
proof -
  let ?full = "sort_by (\<lambda>a b. localeCompare (bucket_date a) (bucket_date b))
      (Object_values (foldl count_order [] os))"
  have "set (chartData localeCompare os) \<subseteq> set ?full"
    by (simp add: chartData_def Let_def slice_last_def set_drop_subset)
  also have "set ?full = set_mset (mset ?full)"
    by simp
  also have "\<dots> = snd ` set (foldl count_order [] os)"
    by (simp only: mset_sorted_groups) simp
  finally show ?thesis .
qed

lemma chartData_bucket:
  assumes "b \<in> set (chartData localeCompare os)"
  shows "bucket_date b \<in> date ` set os \<and> bucket_date b \<notin> set Object_prototype_names \<and>
    udon b = count_on (bucket_date b) True os \<and>
    others b = count_on (bucket_date b) False os"
proof -
  from assms obtain k where "(k, b) \<in> set (foldl count_order [] os)"
    using set_chartData by fastforce
  then have "k \<in> date ` set os \<and> k \<notin> set Object_prototype_names \<and>
    b = \<lparr>bucket_date = k, others = count_on k False os, udon = count_on k True os\<rparr>"
    by (rule groups_member)
  then show ?thesis by simp
qed

lemma chartData_distinct_dates: "distinct (map bucket_date (chartData localeCompare os))"
proof -
  let ?G = "foldl count_order [] os"
  let ?full = "sort_by (\<lambda>a b. localeCompare (bucket_date a) (bucket_date b)) (Object_values ?G)"
  have "\<And>p. p \<in> set ?G \<Longrightarrow> bucket_date (snd p) = fst p"
    using groups_member by fastforce
  then have "image_mset (\<lambda>p. bucket_date (snd p)) (mset ?G) = image_mset fst (mset ?G)"
    by (intro image_mset_cong) simp
  moreover have "mset (map bucket_date ?full) = image_mset bucket_date (mset ?full)"
    by simp
  moreover have "image_mset bucket_date (mset ?full)
      = image_mset (\<lambda>p. bucket_date (snd p)) (mset ?G)"
    by (simp only: mset_sorted_groups image_mset.compositionality comp_def)
  moreover have "image_mset fst (mset ?G) = mset (map fst ?G)"
    by simp
  ultimately have "mset (map bucket_date ?full) = mset (map fst ?G)"
    by (simp only:)
  then have "distinct (map bucket_date ?full)"
    using groups_distinct mset_eq_imp_distinct_iff by blast
  then have "distinct (drop (length ?full - 14) (map bucket_date ?full))"
    by (rule distinct_drop)
  then show ?thesis
    by (simp add: chartData_def Let_def slice_last_def drop_map)
qed

lemma chartData_sorted:
  assumes total: "\<And>a b. localeCompare a b \<le> 0 \<or> localeCompare b a \<le> 0"
    and trans: "\<And>a b c. localeCompare a b \<le> 0 \<Longrightarrow> localeCompare b c \<le> 0 \<Longrightarrow> localeCompare a c \<le> 0"
  shows "sorted_wrt (\<lambda>a b. localeCompare (bucket_date a) (bucket_date b) \<le> 0)
    (chartData localeCompare os)"
proof -
  let ?c = "\<lambda>a b. localeCompare (bucket_date a) (bucket_date b)"
  have "sorted_wrt (\<lambda>a b. ?c a b \<le> 0) (sort_by ?c (Object_values (foldl count_order [] os)))"
  proof (rule sorted_sort_by)
    show "?c a b \<le> 0 \<or> ?c b a \<le> 0" for a b :: bucket
      using total by blast
    show "?c a b \<le> 0 \<Longrightarrow> ?c b d \<le> 0 \<Longrightarrow> ?c a d \<le> 0" for a b d :: bucket
      using trans by blast
  qed
  then show ?thesis
    by (simp add: chartData_def Let_def slice_last_def)
qed

lemma chartData_length:
  "length (chartData localeCompare os)
     = min 14 (card {d \<in> date ` set os. d \<notin> set Object_prototype_names})"
proof -
  let ?G = "foldl count_order [] os"
  let ?full = "sort_by (\<lambda>a b. localeCompare (bucket_date a) (bucket_date b)) (Object_values ?G)"
  have "size (mset ?full) = size (image_mset snd (mset ?G))"
    by (simp only: mset_sorted_groups)
  then have "length ?full = length ?G"
    by simp
  then show ?thesis
    by (simp add: chartData_def Let_def length_slice_last groups_length)
qed

lemma chartData_window:
  assumes total: "\<And>a b. localeCompare a b \<le> 0 \<or> localeCompare b a \<le> 0"
    and trans: "\<And>a b c. localeCompare a b \<le> 0 \<Longrightarrow> localeCompare b c \<le> 0 \<Longrightarrow> localeCompare a c \<le> 0"
  shows "\<exists>dropped.
    sort_by (\<lambda>a b. localeCompare (bucket_date a) (bucket_date b))
        (Object_values (foldl count_order [] os))
      = dropped @ chartData localeCompare os \<and>
    (\<forall>a\<in>set dropped. \<forall>b\<in>set (chartData localeCompare os).
        localeCompare (bucket_date a) (bucket_date b) \<le> 0)"
proof -
  let ?c = "\<lambda>a b. localeCompare (bucket_date a) (bucket_date b)"
  let ?full = "sort_by ?c (Object_values (foldl count_order [] os))"
  let ?dropped = "take (length ?full - 14) ?full"
  have split: "?full = ?dropped @ chartData localeCompare os"
    by (simp add: chartData_def Let_def slice_last_def)
  have "sorted_wrt (\<lambda>a b. ?c a b \<le> 0) ?full"
  proof (rule sorted_sort_by)
    show "?c a b \<le> 0 \<or> ?c b a \<le> 0" for a b :: bucket
      using total by blast
    show "?c a b \<le> 0 \<Longrightarrow> ?c b d \<le> 0 \<Longrightarrow> ?c a d \<le> 0" for a b d :: bucket
      using trans by blast
  qed
  then have "sorted_wrt (\<lambda>a b. ?c a b \<le> 0) (?dropped @ chartData localeCompare os)"
    using split by simp
  then have "\<forall>a\<in>set ?dropped. \<forall>b\<in>set (chartData localeCompare os). ?c a b \<le> 0"
    by (simp add: sorted_wrt_append)
  with split show ?thesis
    by blast
qed

lemma chartData_total:
  assumes "card {d \<in> date ` set os. d \<notin> set Object_prototype_names} \<le> 14"
  shows "sum_list (map bucket_total (chartData localeCompare os))
     = length (filter (\<lambda>x. date x \<notin> set Object_prototype_names) os)"
proof -
  let ?G = "foldl count_order [] os"
  let ?full = "sort_by (\<lambda>a b. localeCompare (bucket_date a) (bucket_date b)) (Object_values ?G)"
  have "size (mset ?full) = size (image_mset snd (mset ?G))"
    by (simp only: mset_sorted_groups)
  then have "length ?full \<le> 14"
    using assms by (simp add: groups_length)
  then have "chartData localeCompare os = ?full"
    by (simp add: chartData_def Let_def slice_last_all)
  then have "sum_list (map bucket_total (chartData localeCompare os))
      = sum_mset (image_mset bucket_total (mset ?full))"
    by (simp add: sum_mset_sum_list flip: mset_map)
  also have "\<dots> = sum_mset (image_mset (\<lambda>p. bucket_total (snd p)) (mset ?G))"
    by (simp only: mset_sorted_groups image_mset.compositionality comp_def)
  also have "\<dots> = sum_list (map (\<lambda>p. bucket_total (snd p)) ?G)"
    by (simp add: sum_mset_sum_list flip: mset_map)
  finally show ?thesis
    by (simp add: groups_total)
qed

lemma chartData_total_all:
  assumes "\<forall>x\<in>set os. date x \<notin> set Object_prototype_names"
    and "card (date ` set os) \<le> 14"
  shows "sum_list (map bucket_total (chartData localeCompare os)) = totalOrders (stats p os)"
proof -
  from assms(1) have "{d \<in> date ` set os. d \<notin> set Object_prototype_names} = date ` set os"
    by auto
  with assms(2) have "card {d \<in> date ` set os. d \<notin> set Object_prototype_names} \<le> 14"
    by simp
  then have "sum_list (map bucket_total (chartData localeCompare os))
     = length (filter (\<lambda>x. date x \<notin> set Object_prototype_names) os)"
    by (rule chartData_total)
  also have "\<dots> = length os"
    using assms(1) by simp
  finally show ?thesis
    by (simp add: stats_def Let_def)
qed

lemma code_unit_compare_le: "code_unit_compare a b \<le> 0 \<longleftrightarrow> a \<le> b"
  by (auto simp add: code_unit_compare_def)

lemma chartData_sorted_code_units:
  "sorted_wrt (\<lambda>a b. bucket_date a \<le> bucket_date b) (chartData code_unit_compare os)"
proof -
  have "sorted_wrt (\<lambda>a b. code_unit_compare (bucket_date a) (bucket_date b) \<le> 0)
      (chartData code_unit_compare os)"
  proof (rule chartData_sorted)
    show "code_unit_compare a b \<le> 0 \<or> code_unit_compare b a \<le> 0" for a b
      by (auto simp add: code_unit_compare_le)
    show "code_unit_compare a b \<le> 0 \<Longrightarrow> code_unit_compare b c \<le> 0
        \<Longrightarrow> code_unit_compare a c \<le> 0" for a b c
      by (simp add: code_unit_compare_le)
  qed
  then show ?thesis
    by (simp add: code_unit_compare_le)
qed

text \<open>Scenario C of the specification, with a second order on the 18th.\<close>

lemma chartData_scenario:
  "chartData code_unit_compare
     [sample_order ''1'' ''2024-03-20'' True, sample_order ''2'' ''2024-03-18'' False,
      sample_order ''3'' ''2024-03-15'' True, sample_order ''4'' ''2024-03-18'' True]
   = [\<lparr>bucket_date = ''2024-03-15'', others = 0, udon = 1\<rparr>,
      \<lparr>bucket_date = ''2024-03-18'', others = 1, udon = 1\<rparr>,
      \<lparr>bucket_date = ''2024-03-20'', others = 0, udon = 1\<rparr>]"
proof -
  have groups: "foldl count_order []
     [sample_order ''1'' ''2024-03-20'' True, sample_order ''2'' ''2024-03-18'' False,
      sample_order ''3'' ''2024-03-15'' True, sample_order ''4'' ''2024-03-18'' True]
   = [(''2024-03-20'', \<lparr>bucket_date = ''2024-03-20'', others = 0, udon = 1\<rparr>),
      (''2024-03-18'', \<lparr>bucket_date = ''2024-03-18'', others = 1, udon = 1\<rparr>),
      (''2024-03-15'', \<lparr>bucket_date = ''2024-03-15'', others = 0, udon = 1\<rparr>)]"
    by (simp add: count_order_def has_truthy_def Object_prototype_names_def
        sample_order_def add_one_def Let_def)
  have "values": "Object_values
     [(''2024-03-20'', \<lparr>bucket_date = ''2024-03-20'', others = 0, udon = 1\<rparr>),
      (''2024-03-18'', \<lparr>bucket_date = ''2024-03-18'', others = 1, udon = 1\<rparr>),
      (''2024-03-15'', \<lparr>bucket_date = ''2024-03-15'', others = 0, udon = 1\<rparr>)]
   = [\<lparr>bucket_date = ''2024-03-20'', others = 0, udon = 1\<rparr>,
      \<lparr>bucket_date = ''2024-03-18'', others = 1, udon = 1\<rparr>,
      \<lparr>bucket_date = ''2024-03-15'', others = 0, udon = 1\<rparr>]"
    by (simp add: Object_values_def array_index_def is_digit_def)
  have sorted: "sort_by (\<lambda>a b. code_unit_compare (bucket_date a) (bucket_date b))
     [\<lparr>bucket_date = ''2024-03-20'', others = 0, udon = 1\<rparr>,
      \<lparr>bucket_date = ''2024-03-18'', others = 1, udon = 1\<rparr>,
      \<lparr>bucket_date = ''2024-03-15'', others = 0, udon = 1\<rparr>]
   = [\<lparr>bucket_date = ''2024-03-15'', others = 0, udon = 1\<rparr>,
      \<lparr>bucket_date = ''2024-03-18'', others = 1, udon = 1\<rparr>,
      \<lparr>bucket_date = ''2024-03-20'', others = 0, udon = 1\<rparr>]"
    by (simp add: sort_by_def code_unit_compare_def)
  show ?thesis
    by (simp only: chartData_def Let_def groups "values" sorted) (simp add: slice_last_def)
qed

text \<open>
  Claim C6 at an order whose date is the name of a property that object literals
  inherit: \<^verbatim>\<open>groups["constructor"]\<close> is the inherited function, which is truthy,
  so no bucket is made and the increment goes to the inherited object. The order is
  in no bucket: there is one order and one distinct date, the series is empty, and
  the counts of the buckets add up to 0.
\<close>

theorem chartData_loses_order_dated_constructor:
  "chartData code_unit_compare [sample_order ''9'' ''constructor'' False] = [] \<and>
   totalOrders (stats ''2024-03'' [sample_order ''9'' ''constructor'' False]) = 1 \<and>
   card (date ` set [sample_order ''9'' ''constructor'' False]) = 1 \<and>
   sum_list (map bucket_total
     (chartData code_unit_compare [sample_order ''9'' ''constructor'' False])) = 0"
  by (simp add: chartData_def count_order_def has_truthy_def Object_prototype_names_def
      sample_order_def Object_values_def sort_by_def slice_last_def Let_def stats_def)

subsection \<open>The second copy of the component\<close>

text \<open>
  In the second copy the period of \<open>thisMonthCount\<close> is fixed, an extracted date is
  taken as it is, a rejected initial load leaves \<open>isSyncing\<close> on, and the series
  is not cut to 14 buckets.
\<close>

lemma MOCK_EMAILS_part000_is_MOCK_EMAILS: "MOCK_EMAILS_part000 = MOCK_EMAILS ''2024-03''"
  by (simp add: MOCK_EMAILS_part000_def MOCK_EMAILS_def)

lemma processEmail_part000_builds:
  "parse (email_body e) = Inr (Declared p) \<Longrightarrow>
   \<exists>x. processEmail_part000 parse e = Inr x \<and> date x = parsed_date p \<and>
       (hasUdon x \<longleftrightarrow> (\<exists>i\<in>set (items x). isUdon i))"
  by (simp add: processEmail_part000_def Let_def list_ex_iff)

lemma init_settle_part000_rejected:
  assumes "\<exists>e\<in>set MOCK_EMAILS_part000. isl (processEmail_part000 parse e)"
  shows "init_settle_part000 parse s = s"
proof -
  from assms have "\<exists>q\<in>set (map (processEmail_part000 parse) MOCK_EMAILS_part000). isl q"
    by simp
  then have "isl (Promise_all (map (processEmail_part000 parse) MOCK_EMAILS_part000))"
    by (rule Promise_all_rejects)
  then show ?thesis
    by (auto simp add: init_settle_part000_def split: sum.splits)
qed

lemma init_part000_stays_syncing: "isSyncing (init_part000 second_fails (initial_app 0))"
proof -
  have "\<exists>e\<in>set MOCK_EMAILS_part000. isl (processEmail_part000 second_fails e)"
    by (simp add: MOCK_EMAILS_part000_def processEmail_part000_def second_fails_def)
  then have "init_settle_part000 second_fails (init_start (initial_app 0)) = init_start (initial_app 0)"
    by (rule init_settle_part000_rejected)
  then show ?thesis
    by (simp add: init_part000_def init_start_def)
qed

lemma groups_fifteen_days:
  "foldl count_order [] fifteen_days =
     map (\<lambda>d. (d, \<lparr>bucket_date = d, others = 1, udon = 0\<rparr>))
       [''2024-03-01'', ''2024-03-02'', ''2024-03-03'', ''2024-03-04'', ''2024-03-05'',
        ''2024-03-06'', ''2024-03-07'', ''2024-03-08'', ''2024-03-09'', ''2024-03-10'',
        ''2024-03-11'', ''2024-03-12'', ''2024-03-13'', ''2024-03-14'', ''2024-03-15'']"
  by (simp add: fifteen_days_def count_order_def has_truthy_def Object_prototype_names_def
      sample_order_def add_one_def Let_def)

lemma chartData_fifteen_days:
  "map bucket_date (chartData code_unit_compare fifteen_days) =
       [''2024-03-02'', ''2024-03-03'', ''2024-03-04'', ''2024-03-05'',
        ''2024-03-06'', ''2024-03-07'', ''2024-03-08'', ''2024-03-09'', ''2024-03-10'',
        ''2024-03-11'', ''2024-03-12'', ''2024-03-13'', ''2024-03-14'', ''2024-03-15'']"
  by (simp add: chartData_def Let_def groups_fifteen_days Object_values_def array_index_def
      is_digit_def sort_by_def code_unit_compare_def slice_last_def)

lemma groups_part000_fifteen_days:
  "foldl count_order_part000 [] fifteen_days =
     map (\<lambda>d. (d, \<lparr>date_part000 = d, count_part000 = 1, udon_part000 = 0\<rparr>))
       [''2024-03-01'', ''2024-03-02'', ''2024-03-03'', ''2024-03-04'', ''2024-03-05'',
        ''2024-03-06'', ''2024-03-07'', ''2024-03-08'', ''2024-03-09'', ''2024-03-10'',
        ''2024-03-11'', ''2024-03-12'', ''2024-03-13'', ''2024-03-14'', ''2024-03-15'']"
  by (simp add: fifteen_days_def count_order_part000_def Object_prototype_names_def
      sample_order_def Let_def)

lemma chartData_part000_fifteen_days:
  "length (chartData_part000 code_unit_compare fifteen_days) = 15"
  by (simp add: chartData_part000_def Let_def groups_part000_fifteen_days Object_values_def
      array_index_def is_digit_def sort_by_def code_unit_compare_def)

end
